theory Spec2Isabelle
  imports Complex_Main "HOL-Library.Multiset"
begin

section \<open>Data model (types.go)\<close>

text \<open>
  Go's dynamically typed values (\<^verbatim>\<open>interface{}\<close>) as they occur in the free-form
  mappings: scalars and nested string-keyed mappings. A \<^verbatim>\<open>map[string]interface{}\<close> is a
  partial function; a nil map and an empty map read alike and are both \<open>Map.empty\<close>.
\<close>

datatype val = VNil | VBool bool | VInt int | VStr string | VMap "string \<Rightarrow> val option"

type_synonym vmap = "string \<Rightarrow> val option"

datatype WorkflowStatus =
  WorkflowStatusPending | WorkflowStatusRunning | WorkflowStatusCompleted
  | WorkflowStatusFailed | WorkflowStatusCancelled | WorkflowStatusRetrying

datatype StepStatus =
  StepStatusPending | StepStatusRunning | StepStatusCompleted
  | StepStatusFailed | StepStatusSkipped | StepStatusRetrying

text \<open>
  \<^verbatim>\<open>float64\<close>: a finite value is a real number \<open>m * 2^e\<close> with \<open>\<bar>m\<bar> < 2^53\<close> and
  \<open>-1074 \<le> e \<le> 971\<close>, here \<open>Some\<close> of that number; \<open>None\<close> stands for a value that is no
  such number (an infinity or NaN). A product with such a value is again such a value,
  and Go leaves its conversion to an integer implementation-dependent, so the code
  modelled here cannot tell these values apart.

  Every arithmetic result is the exact result rounded to the nearest \<^verbatim>\<open>float64\<close>, ties
  to the even mantissa (IEEE 754, the rounding of Go's \<^verbatim>\<open>float64\<close> operations):
  \<open>rne\<close> rounds to the nearest integer, ties to even; for \<open>2^k \<le> x < 2^(k+1)\<close> the
  neighbouring values are \<open>2^(k-52)\<close> apart, and below \<open>2^(-1022)\<close> they are \<open>2^(-1074)\<close>
  apart (\<open>round_pos\<close>, with \<open>k = \<lfloor>log 2 x\<rfloor>\<close>); a result of magnitude \<open>2^1024\<close> or more is
  an infinity (\<open>round64\<close>).
\<close>

definition rne :: "real \<Rightarrow> int" where
  "rne x =
     (if x - of_int \<lfloor>x\<rfloor> < 1 / 2 then \<lfloor>x\<rfloor>
      else if 1 / 2 < x - of_int \<lfloor>x\<rfloor> then \<lfloor>x\<rfloor> + 1
      else if even \<lfloor>x\<rfloor> then \<lfloor>x\<rfloor> else \<lfloor>x\<rfloor> + 1)"

definition pow2 :: "int \<Rightarrow> real" where
  "pow2 k = 2 powr of_int k"

definition round_pos :: "real \<Rightarrow> real" where
  "round_pos x =
     (let e = max \<lfloor>log 2 x\<rfloor> (- 1022) - 52
      in of_int (rne (x / pow2 e)) * pow2 e)"

definition round64 :: "real \<Rightarrow> real option" where
  "round64 x =
     (if x = 0 then Some 0
      else let y = round_pos \<bar>x\<bar>
           in if 2 ^ 1024 \<le> y then None else Some (sgn x * y))"

type_synonym float64 = "real option"

text \<open>
  \<^verbatim>\<open>time.Duration\<close> is a count of nanoseconds (\<^verbatim>\<open>int64\<close>). The multiplier of a policy
  is a \<^verbatim>\<open>float64\<close>; it is written as a number, as in the source text (\<^verbatim>\<open>2.0\<close>,
  \<^verbatim>\<open>1.7\<close>), and \<open>Some x\<close> is read as the \<^verbatim>\<open>float64\<close> nearest to \<open>x\<close>, the value that the
  constant \<open>x\<close> has in Go (\<open>f64_const\<close> below).
\<close>

record RetryPolicy =
  MaxAttempts :: int
  InitialInterval :: int
  MaxInterval :: int
  Multiplier :: float64
  RetryableErrors :: "string list"

text \<open>
  A step executor is user code: it may keep state of its own between calls (a captured
  counter, say), which is the component \<open>'u\<close> threaded through every call. It returns
  \<open>Inl msg\<close> for a Go error with message \<open>msg\<close> and \<open>Inr output\<close> otherwise. A function
  value may be nil, hence the \<open>option\<close>.
\<close>

type_synonym 'u StepExecutor = "'u \<Rightarrow> vmap \<Rightarrow> (string + vmap) \<times> 'u"
type_synonym 'u StepCompensator = "'u \<Rightarrow> vmap \<Rightarrow> string option \<times> 'u"

text \<open>
  The field \<open>Priority\<close> is set by \<^verbatim>\<open>StepBuilder.WithPriority\<close> and read by the
  scheduler; it is an \<^verbatim>\<open>int\<close> with default 0.
\<close>

record 'u StepDefinition =
  sd_ID :: string
  sd_Name :: string
  sd_Description :: string
  sd_Executor :: "'u StepExecutor option"
  sd_Compensator :: "'u StepCompensator option"
  sd_Dependencies :: "string list"
  sd_RetryPolicy :: "RetryPolicy option"
  sd_Timeout :: int
  sd_Required :: bool
  sd_Async :: bool
  sd_Priority :: int

record 'u WorkflowDefinition =
  wd_ID :: string
  wd_Name :: string
  wd_Description :: string
  wd_Version :: string
  wd_Steps :: "'u StepDefinition list"
  wd_Metadata :: vmap

text \<open>
  Step and workflow instances. The type parameter \<open>'m\<close> is the representation of the
  mapping-valued fields: the mapping itself (\<open>vmap\<close>) where only contents matter, or an
  address into a heap of map objects where aliasing matters. Pointer-typed optional fields
  (\<^verbatim>\<open>*time.Time\<close>, \<^verbatim>\<open>*string\<close>) are \<open>option\<close>s; instants are ticks of a clock.
\<close>

record 'm StepInstance =
  si_ID :: string
  si_StepID :: string
  si_WorkflowInstID :: string
  si_Status :: StepStatus
  si_Input :: 'm
  si_Output :: 'm
  si_StartedAt :: "nat option"
  si_CompletedAt :: "nat option"
  si_Error :: "string option"
  si_RetryCount :: int
  si_LastRetryAt :: "nat option"
  si_DurationMs :: int
  si_ExecutionOrder :: int

record 'm WorkflowInstance =
  wi_ID :: string
  wi_WorkflowID :: string
  wi_Status :: WorkflowStatus
  wi_Input :: 'm
  wi_Output :: 'm
  wi_Context :: 'm
  wi_CurrentStepID :: string
  wi_Steps :: "'m StepInstance list"
  wi_StartedAt :: nat
  wi_CompletedAt :: "nat option"
  wi_Error :: "string option"
  wi_RetryCount :: int
  wi_LastRetryAt :: "nat option"
  wi_Metadata :: 'm
  wi_TraceID :: string
  wi_CorrelationID :: string
  wi_BusinessID :: string

record WorkflowEvent =
  ev_ID :: string
  ev_WorkflowInstID :: string
  ev_StepInstID :: "string option"
  ev_EventType :: string
  ev_EventData :: vmap
  ev_Timestamp :: nat

record WorkflowResult =
  wr_Success :: bool
  wr_WorkflowInst :: "vmap WorkflowInstance"
  wr_Output :: vmap
  wr_Error :: "string option"
  wr_Duration :: nat

definition wi_IsCompleted :: "'m WorkflowInstance \<Rightarrow> bool" where
  "wi_IsCompleted w \<longleftrightarrow>
     wi_Status w = WorkflowStatusCompleted \<or> wi_Status w = WorkflowStatusFailed
     \<or> wi_Status w = WorkflowStatusCancelled"

definition si_IsCompleted :: "'m StepInstance \<Rightarrow> bool" where
  "si_IsCompleted s \<longleftrightarrow>
     si_Status s = StepStatusCompleted \<or> si_Status s = StepStatusFailed
     \<or> si_Status s = StepStatusSkipped"

section \<open>Builders (WorkflowBuilder.Build) and registration\<close>

text \<open>
  \<^verbatim>\<open>stepIDs\<close> in \<^verbatim>\<open>Build\<close> is the set of step identifiers; the two nested loops
  return at the first step (in order) that has a dependency (in order) outside it.
\<close>

fun firstInvalidDep :: "string list \<Rightarrow> string list \<Rightarrow> string option" where
  "firstInvalidDep stepIDs [] = None"
| "firstInvalidDep stepIDs (dep # deps) =
     (if dep \<notin> set stepIDs then Some dep else firstInvalidDep stepIDs deps)"

fun validateDependencies :: "string list \<Rightarrow> 'u StepDefinition list \<Rightarrow> string option" where
  "validateDependencies stepIDs [] = None"
| "validateDependencies stepIDs (step # steps) =
     (case firstInvalidDep stepIDs (sd_Dependencies step) of
        Some dep \<Rightarrow> Some (''step '' @ sd_ID step @ '' has invalid dependency: '' @ dep)
      | None \<Rightarrow> validateDependencies stepIDs steps)"

definition Build :: "'u WorkflowDefinition \<Rightarrow> string + 'u WorkflowDefinition" where
  "Build workflow =
     (if wd_ID workflow = [] then Inl ''workflow ID is required''
      else if wd_Name workflow = [] then Inl ''workflow name is required''
      else if length (wd_Steps workflow) = 0 then Inl ''workflow must have at least one step''
      else case validateDependencies (map sd_ID (wd_Steps workflow)) (wd_Steps workflow) of
             Some e \<Rightarrow> Inl e
           | None \<Rightarrow> Inr workflow)"

text \<open>
  The orchestrator's registry of definitions. \<^verbatim>\<open>RegisterWorkflow\<close> takes a pointer,
  which may be nil (\<open>None\<close>); it returns the error, if any, and the registry.
\<close>

type_synonym 'u registry = "string \<Rightarrow> 'u WorkflowDefinition option"

definition RegisterWorkflow ::
  "'u registry \<Rightarrow> 'u WorkflowDefinition option \<Rightarrow> string option \<times> 'u registry" where
  "RegisterWorkflow workflows workflow =
     (case workflow of
        None \<Rightarrow> (Some ''workflow cannot be nil'', workflows)
      | Some wdef \<Rightarrow>
          if wd_ID wdef = [] then (Some ''workflow ID cannot be empty'', workflows)
          else (None, workflows(wd_ID wdef \<mapsto> wdef)))"

definition orch_GetWorkflow :: "'u registry \<Rightarrow> string \<Rightarrow> string + 'u WorkflowDefinition" where
  "orch_GetWorkflow workflows workflowID =
     (case workflows workflowID of
        None \<Rightarrow> Inl (''workflow not found: '' @ workflowID)
      | Some wdef \<Rightarrow> Inr wdef)"

text \<open>
  The dependency relation of a definition (\<open>a\<close> depends on \<open>b\<close>), used to say what a
  cyclic definition is.
\<close>

definition depends_on :: "'u WorkflowDefinition \<Rightarrow> (string \<times> string) set" where
  "depends_on workflow =
     {(a, b). \<exists>s \<in> set (wd_Steps workflow). sd_ID s = a \<and> b \<in> set (sd_Dependencies s)}"

definition cyclic :: "'u WorkflowDefinition \<Rightarrow> bool" where
  "cyclic workflow \<longleftrightarrow> (\<exists>a. (a, a) \<in> (depends_on workflow)\<^sup>+)"

section \<open>Retry interval (calculateRetryInterval, pow)\<close>

text \<open>
  The operations of the source on \<^verbatim>\<open>float64\<close>: the value of a constant, the conversion
  \<^verbatim>\<open>float64(n)\<close> of an integer, and the product.
\<close>

definition f64_const :: "float64 \<Rightarrow> float64" where
  "f64_const v = (case v of None \<Rightarrow> None | Some x \<Rightarrow> round64 x)"

definition f64_of_int :: "int \<Rightarrow> float64" where
  "f64_of_int n = round64 (of_int n)"

definition f64_mul :: "float64 \<Rightarrow> float64 \<Rightarrow> float64" where
  "f64_mul a b =
     (case a of
        None \<Rightarrow> None
      | Some x \<Rightarrow> (case b of None \<Rightarrow> None | Some y \<Rightarrow> round64 (x * y)))"

text \<open>
  Go's conversion of a float to an integer (\<^verbatim>\<open>int(exp)\<close>, \<^verbatim>\<open>time.Duration(interval)\<close>)
  truncates towards zero; where the value does not fit the 64-bit integer the result is
  implementation-dependent, and the model gives \<open>None\<close>. The loop of \<^verbatim>\<open>pow\<close>,
  \<^verbatim>\<open>for i := 1; i < int(exp); i++\<close>, runs \<open>int(exp) - 1\<close> times when that is positive and
  not at all otherwise.
\<close>

definition go_trunc :: "real \<Rightarrow> int" where
  "go_trunc x = (if 0 \<le> x then \<lfloor>x\<rfloor> else \<lceil>x\<rceil>)"

definition to_int64 :: "float64 \<Rightarrow> int option" where
  "to_int64 v =
     (case v of
        None \<Rightarrow> None
      | Some x \<Rightarrow>
          if - (2 ^ 63) \<le> go_trunc x \<and> go_trunc x < 2 ^ 63 then Some (go_trunc x) else None)"

fun pow_loop :: "float64 \<Rightarrow> float64 \<Rightarrow> nat \<Rightarrow> float64" where
  "pow_loop base result 0 = result"
| "pow_loop base result (Suc k) = pow_loop base (f64_mul result base) k"

definition pow :: "float64 \<Rightarrow> float64 \<Rightarrow> float64" where
  "pow base ex =
     (if ex = Some 0 then Some 1
      else case to_int64 ex of
             None \<Rightarrow> None
           | Some n \<Rightarrow> pow_loop base base (nat (n - 1)))"

definition calculateRetryInterval :: "RetryPolicy \<Rightarrow> int \<Rightarrow> int option" where
  "calculateRetryInterval policy attempt =
     (if InitialInterval policy = 0 then Some 0
      else
        let interval = f64_mul (f64_of_int (InitialInterval policy))
                         (pow (f64_const (Multiplier policy)) (f64_of_int (attempt - 1)))
        in case to_int64 interval of
             None \<Rightarrow> None
           | Some d \<Rightarrow>
               if MaxInterval policy > 0 \<and> d > MaxInterval policy
               then Some (MaxInterval policy)
               else Some d)"

section \<open>Environment: clock and identifier generation\<close>

text \<open>
  Everything the engine reads from or writes to outside its arguments: the in-memory
  store, the state of the user's executors, the clock behind \<^verbatim>\<open>time.Now()\<close> (it
  advances by one at every reading, so only the order of instants is meaningful), the
  stream of identifiers that \<^verbatim>\<open>uuid.New().String()\<close> will return, and the intervals
  handed to \<^verbatim>\<open>time.Sleep\<close>.
\<close>

record InMemoryStateManager =
  sm_workflows :: "string \<Rightarrow> vmap WorkflowInstance option"
  sm_steps :: "string \<Rightarrow> vmap StepInstance option"
  sm_events :: "string \<Rightarrow> WorkflowEvent option"

record 'u world =
  w_sm :: InMemoryStateManager
  w_user :: 'u
  w_clock :: nat
  w_uuid_src :: "nat \<Rightarrow> string"
  w_uuid_next :: nat
  w_slept :: "int option list"

definition NewInMemoryStateManager :: InMemoryStateManager where
  "NewInMemoryStateManager =
     \<lparr>sm_workflows = Map.empty, sm_steps = Map.empty, sm_events = Map.empty\<rparr>"

definition time_Now :: "'u world \<Rightarrow> nat \<times> 'u world" where
  "time_Now w = (w_clock w, w\<lparr>w_clock := w_clock w + 1\<rparr>)"

definition uuid_New :: "'u world \<Rightarrow> string \<times> 'u world" where
  "uuid_New w = (w_uuid_src w (w_uuid_next w), w\<lparr>w_uuid_next := w_uuid_next w + 1\<rparr>)"

definition time_Sleep :: "int option \<Rightarrow> 'u world \<Rightarrow> 'u world" where
  "time_Sleep d w = w\<lparr>w_slept := w_slept w @ [d]\<rparr>"

section \<open>In-memory store (state_manager.go)\<close>

text \<open>
  In this view a mapping is its contents, so copying a mapping entry by entry gives the
  same mapping; the copies are written out field by field as in the source.
\<close>

definition deepCopyStep :: "vmap StepInstance \<Rightarrow> vmap StepInstance" where
  "deepCopyStep s =
     \<lparr>si_ID = si_ID s, si_StepID = si_StepID s, si_WorkflowInstID = si_WorkflowInstID s,
      si_Status = si_Status s,
      si_Input = Map.empty ++ si_Input s,
      si_Output = Map.empty ++ si_Output s,
      si_StartedAt = (case si_StartedAt s of None \<Rightarrow> None | Some t \<Rightarrow> Some t),
      si_CompletedAt = (case si_CompletedAt s of None \<Rightarrow> None | Some t \<Rightarrow> Some t),
      si_Error = (case si_Error s of None \<Rightarrow> None | Some e \<Rightarrow> Some e),
      si_RetryCount = si_RetryCount s,
      si_LastRetryAt = (case si_LastRetryAt s of None \<Rightarrow> None | Some t \<Rightarrow> Some t),
      si_DurationMs = si_DurationMs s, si_ExecutionOrder = si_ExecutionOrder s\<rparr>"

definition deepCopyWorkflow :: "vmap WorkflowInstance \<Rightarrow> vmap WorkflowInstance" where
  "deepCopyWorkflow w =
     \<lparr>wi_ID = wi_ID w, wi_WorkflowID = wi_WorkflowID w, wi_Status = wi_Status w,
      wi_Input = Map.empty ++ wi_Input w,
      wi_Output = Map.empty ++ wi_Output w,
      wi_Context = Map.empty ++ wi_Context w,
      wi_CurrentStepID = wi_CurrentStepID w,
      wi_Steps = map deepCopyStep (wi_Steps w),
      wi_StartedAt = wi_StartedAt w,
      wi_CompletedAt = (case wi_CompletedAt w of None \<Rightarrow> None | Some t \<Rightarrow> Some t),
      wi_Error = (case wi_Error w of None \<Rightarrow> None | Some e \<Rightarrow> Some e),
      wi_RetryCount = wi_RetryCount w,
      wi_LastRetryAt = (case wi_LastRetryAt w of None \<Rightarrow> None | Some t \<Rightarrow> Some t),
      wi_Metadata = Map.empty ++ wi_Metadata w,
      wi_TraceID = wi_TraceID w, wi_CorrelationID = wi_CorrelationID w,
      wi_BusinessID = wi_BusinessID w\<rparr>"

definition deepCopyEvent :: "WorkflowEvent \<Rightarrow> WorkflowEvent" where
  "deepCopyEvent e =
     \<lparr>ev_ID = ev_ID e, ev_WorkflowInstID = ev_WorkflowInstID e,
      ev_StepInstID = (case ev_StepInstID e of None \<Rightarrow> None | Some i \<Rightarrow> Some i),
      ev_EventType = ev_EventType e,
      ev_EventData = Map.empty ++ ev_EventData e,
      ev_Timestamp = ev_Timestamp e\<rparr>"

text \<open>
  Each operation returns Go's \<^verbatim>\<open>error\<close> (\<open>None\<close> for nil) next to the environment it
  leaves. The mutex is not modelled: operations are atomic here.
\<close>

definition SaveWorkflow :: "vmap WorkflowInstance \<Rightarrow> 'u world \<Rightarrow> string option \<times> 'u world" where
  "SaveWorkflow workflow w =
     (None, w\<lparr>w_sm := (w_sm w)\<lparr>sm_workflows :=
        (sm_workflows (w_sm w))(wi_ID workflow \<mapsto> deepCopyWorkflow workflow)\<rparr>\<rparr>)"

definition GetWorkflow :: "string \<Rightarrow> 'u world \<Rightarrow> string + vmap WorkflowInstance" where
  "GetWorkflow workflowInstID w =
     (case sm_workflows (w_sm w) workflowInstID of
        None \<Rightarrow> Inl (''workflow not found: '' @ workflowInstID)
      | Some workflow \<Rightarrow> Inr (deepCopyWorkflow workflow))"

definition UpdateWorkflowStatus ::
  "string \<Rightarrow> WorkflowStatus \<Rightarrow> 'u world \<Rightarrow> string option \<times> 'u world" where
  "UpdateWorkflowStatus workflowInstID status w =
     (case sm_workflows (w_sm w) workflowInstID of
        None \<Rightarrow> (Some (''workflow not found: '' @ workflowInstID), w)
      | Some workflow \<Rightarrow>
          if status = WorkflowStatusCompleted \<or> status = WorkflowStatusFailed
             \<or> status = WorkflowStatusCancelled
          then
            let (now, w1) = time_Now w
            in (None, w1\<lparr>w_sm := (w_sm w1)\<lparr>sm_workflows := (sm_workflows (w_sm w1))
                  (workflowInstID \<mapsto> workflow\<lparr>wi_Status := status, wi_CompletedAt := Some now\<rparr>)\<rparr>\<rparr>)
          else
            (None, w\<lparr>w_sm := (w_sm w)\<lparr>sm_workflows := (sm_workflows (w_sm w))
                  (workflowInstID \<mapsto> workflow\<lparr>wi_Status := status\<rparr>)\<rparr>\<rparr>))"

definition UpdateWorkflowOutput :: "string \<Rightarrow> vmap \<Rightarrow> 'u world \<Rightarrow> string option \<times> 'u world" where
  "UpdateWorkflowOutput workflowInstID output w =
     (case sm_workflows (w_sm w) workflowInstID of
        None \<Rightarrow> (Some (''workflow not found: '' @ workflowInstID), w)
      | Some workflow \<Rightarrow>
          (None, w\<lparr>w_sm := (w_sm w)\<lparr>sm_workflows := (sm_workflows (w_sm w))
                (workflowInstID \<mapsto> workflow\<lparr>wi_Output := Map.empty ++ output\<rparr>)\<rparr>\<rparr>))"

definition UpdateWorkflowError :: "string \<Rightarrow> string \<Rightarrow> 'u world \<Rightarrow> string option \<times> 'u world" where
  "UpdateWorkflowError workflowInstID err w =
     (case sm_workflows (w_sm w) workflowInstID of
        None \<Rightarrow> (Some (''workflow not found: '' @ workflowInstID), w)
      | Some workflow \<Rightarrow>
          let errorMsg = err;
              (now, w1) = time_Now w
          in (None, w1\<lparr>w_sm := (w_sm w1)\<lparr>sm_workflows := (sm_workflows (w_sm w1))
                (workflowInstID \<mapsto> workflow\<lparr>wi_Error := Some errorMsg,
                    wi_Status := WorkflowStatusFailed, wi_CompletedAt := Some now\<rparr>)\<rparr>\<rparr>))"

definition SaveStep :: "vmap StepInstance \<Rightarrow> 'u world \<Rightarrow> string option \<times> 'u world" where
  "SaveStep step w =
     (None, w\<lparr>w_sm := (w_sm w)\<lparr>sm_steps :=
        (sm_steps (w_sm w))(si_ID step \<mapsto> deepCopyStep step)\<rparr>\<rparr>)"

definition GetStep :: "string \<Rightarrow> 'u world \<Rightarrow> string + vmap StepInstance" where
  "GetStep stepInstID w =
     (case sm_steps (w_sm w) stepInstID of
        None \<Rightarrow> Inl (''step not found: '' @ stepInstID)
      | Some step \<Rightarrow> Inr (deepCopyStep step))"

text \<open>
  \<^verbatim>\<open>GetWorkflowSteps\<close> ranges over the map \<^verbatim>\<open>m.steps\<close>. Go leaves the order of a map
  iteration unspecified (it differs from run to run), so the order in which the keys are
  visited is an argument: \<open>order\<close> lists the keys of the map, each once.
\<close>

definition iteration_order :: "string list \<Rightarrow> (string \<Rightarrow> 'a option) \<Rightarrow> bool" where
  "iteration_order order m \<longleftrightarrow> distinct order \<and> set order = dom m"

fun rangeSteps :: "string list \<Rightarrow> (string \<Rightarrow> vmap StepInstance option) \<Rightarrow> string
    \<Rightarrow> vmap StepInstance list" where
  "rangeSteps [] m workflowInstID = []"
| "rangeSteps (k # ks) m workflowInstID =
     (case m k of
        None \<Rightarrow> rangeSteps ks m workflowInstID
      | Some step \<Rightarrow>
          if si_WorkflowInstID step = workflowInstID
          then deepCopyStep step # rangeSteps ks m workflowInstID
          else rangeSteps ks m workflowInstID)"

definition GetWorkflowSteps ::
  "string list \<Rightarrow> string \<Rightarrow> 'u world \<Rightarrow> string option \<times> vmap StepInstance list" where
  "GetWorkflowSteps order workflowInstID w =
     (None, rangeSteps order (sm_steps (w_sm w)) workflowInstID)"

definition UpdateStepStatus :: "string \<Rightarrow> StepStatus \<Rightarrow> 'u world \<Rightarrow> string option \<times> 'u world" where
  "UpdateStepStatus stepInstID status w =
     (case sm_steps (w_sm w) stepInstID of
        None \<Rightarrow> (Some (''step not found: '' @ stepInstID), w)
      | Some step \<Rightarrow>
          let step1 = step\<lparr>si_Status := status\<rparr>;
              (step2, w2) =
                (if status = StepStatusRunning
                 then let (now, w1) = time_Now w in (step1\<lparr>si_StartedAt := Some now\<rparr>, w1)
                 else (step1, w));
              (step3, w3) =
                (if status = StepStatusCompleted \<or> status = StepStatusFailed
                    \<or> status = StepStatusSkipped
                 then let (now, w1) = time_Now w2 in (step2\<lparr>si_CompletedAt := Some now\<rparr>, w1)
                 else (step2, w2))
          in (None, w3\<lparr>w_sm := (w_sm w3)\<lparr>sm_steps :=
                (sm_steps (w_sm w3))(stepInstID \<mapsto> step3)\<rparr>\<rparr>))"

definition UpdateStepOutput :: "string \<Rightarrow> vmap \<Rightarrow> 'u world \<Rightarrow> string option \<times> 'u world" where
  "UpdateStepOutput stepInstID output w =
     (case sm_steps (w_sm w) stepInstID of
        None \<Rightarrow> (Some (''step not found: '' @ stepInstID), w)
      | Some step \<Rightarrow>
          (None, w\<lparr>w_sm := (w_sm w)\<lparr>sm_steps := (sm_steps (w_sm w))
                (stepInstID \<mapsto> step\<lparr>si_Output := Map.empty ++ output\<rparr>)\<rparr>\<rparr>))"

definition UpdateStepError :: "string \<Rightarrow> string \<Rightarrow> 'u world \<Rightarrow> string option \<times> 'u world" where
  "UpdateStepError stepInstID err w =
     (case sm_steps (w_sm w) stepInstID of
        None \<Rightarrow> (Some (''step not found: '' @ stepInstID), w)
      | Some step \<Rightarrow>
          let errorMsg = err;
              (now, w1) = time_Now w
          in (None, w1\<lparr>w_sm := (w_sm w1)\<lparr>sm_steps := (sm_steps (w_sm w1))
                (stepInstID \<mapsto> step\<lparr>si_Error := Some errorMsg,
                    si_Status := StepStatusFailed, si_CompletedAt := Some now\<rparr>)\<rparr>\<rparr>))"

definition SaveEvent :: "WorkflowEvent \<Rightarrow> 'u world \<Rightarrow> string option \<times> 'u world" where
  "SaveEvent event w =
     (None, w\<lparr>w_sm := (w_sm w)\<lparr>sm_events :=
        (sm_events (w_sm w))(ev_ID event \<mapsto> deepCopyEvent event)\<rparr>\<rparr>)"

section \<open>Orchestrator: step input and output\<close>

text \<open>
  The in-flight instance holds its step instances by pointer, and \<^verbatim>\<open>stepInstMap\<close> maps
  a step identifier to one of these pointers. A pointer to \<^verbatim>\<open>instance.Steps[i]\<close> is the
  index \<open>i\<close>; writing through it is \<open>updStep\<close>. A later step instance with the same step
  identifier replaces an earlier one in the map, as in the source's loop.
\<close>

type_synonym 'u run = "vmap WorkflowInstance \<times> 'u world"

definition updStep ::
  "nat \<Rightarrow> (vmap StepInstance \<Rightarrow> vmap StepInstance) \<Rightarrow> vmap WorkflowInstance
   \<Rightarrow> vmap WorkflowInstance" where
  "updStep idx f inst = inst\<lparr>wi_Steps := (wi_Steps inst)[idx := f (wi_Steps inst ! idx)]\<rparr>"

fun buildStepInstMap_from ::
  "nat \<Rightarrow> vmap StepInstance list \<Rightarrow> (string \<Rightarrow> nat option) \<Rightarrow> (string \<Rightarrow> nat option)" where
  "buildStepInstMap_from i [] m = m"
| "buildStepInstMap_from i (stepInst # rest) m =
     buildStepInstMap_from (i + 1) rest (m(si_StepID stepInst \<mapsto> i))"

definition buildStepInstMap :: "vmap StepInstance list \<Rightarrow> (string \<Rightarrow> nat option)" where
  "buildStepInstMap stepInsts = buildStepInstMap_from 0 stepInsts Map.empty"

fun addDependencyOutputs ::
  "vmap StepInstance list \<Rightarrow> (string \<Rightarrow> nat option) \<Rightarrow> string list \<Rightarrow> vmap \<Rightarrow> vmap" where
  "addDependencyOutputs stepInsts stepInstMap [] input = input"
| "addDependencyOutputs stepInsts stepInstMap (depID # deps) input =
     (case stepInstMap depID of
        Some i \<Rightarrow>
          addDependencyOutputs stepInsts stepInstMap deps
            ((input ++ si_Output (stepInsts ! i))(depID \<mapsto> VMap (si_Output (stepInsts ! i))))
      | None \<Rightarrow> addDependencyOutputs stepInsts stepInstMap deps input)"

definition prepareStepInput ::
  "'u StepDefinition \<Rightarrow> vmap WorkflowInstance \<Rightarrow> (string \<Rightarrow> nat option) \<Rightarrow> vmap" where
  "prepareStepInput stepDef workflowInst stepInstMap =
     addDependencyOutputs (wi_Steps workflowInst) stepInstMap (sd_Dependencies stepDef)
       (Map.empty ++ wi_Input workflowInst)
     ++ wi_Context workflowInst"

definition mergeStepOutput ::
  "string \<Rightarrow> vmap \<Rightarrow> vmap WorkflowInstance \<Rightarrow> vmap WorkflowInstance" where
  "mergeStepOutput stepID output workflowInst =
     workflowInst\<lparr>wi_Context := (wi_Context workflowInst)(stepID \<mapsto> VMap output) ++ output,
                  wi_Output := wi_Output workflowInst ++ output\<rparr>"

definition emitEvent ::
  "string \<Rightarrow> string option \<Rightarrow> string \<Rightarrow> vmap \<Rightarrow> 'u world \<Rightarrow> 'u world" where
  "emitEvent workflowInstID stepInstID eventType data w =
     (let (eid, w1) = uuid_New w;
          (now, w2) = time_Now w1;
          event = \<lparr>ev_ID = eid, ev_WorkflowInstID = workflowInstID, ev_StepInstID = stepInstID,
                   ev_EventType = eventType, ev_EventData = data, ev_Timestamp = now\<rparr>
      in snd (SaveEvent event w2))"

section \<open>Orchestrator: executeStep\<close>

text \<open>Decimal rendering of an integer, for \<^verbatim>\<open>%d\<close> in \<^verbatim>\<open>fmt.Errorf\<close>.\<close>

fun digits :: "nat \<Rightarrow> string" where
  "digits n = (if n < 10 then [''0123456789'' ! n]
               else digits (n div 10) @ [''0123456789'' ! (n mod 10)])"

declare digits.simps [simp del]

definition itoa :: "int \<Rightarrow> string" where
  "itoa i = (if i < 0 then ''-'' @ digits (nat (- i)) else digits (nat i))"

text \<open>
  A call through a nil pointer or a nil function value panics; nothing recovers it, so
  the run ends there.
\<close>

datatype fault = NilDereference

datatype attempt_result = Succeeded | Exhausted "string option"

definition beginAttempt ::
  "'u StepDefinition \<Rightarrow> nat \<Rightarrow> RetryPolicy \<Rightarrow> int \<Rightarrow> 'u run \<Rightarrow> 'u run" where
  "beginAttempt stepDef idx retryPolicy attempt r =
     (let (inst, w) = r;
          stepInstID = si_ID (wi_Steps inst ! idx);
          (inst1, w1) =
            (if attempt > 0 then
               let interval = calculateRetryInterval retryPolicy attempt;
                   wa = time_Sleep interval w;
                   (now, wb) = time_Now wa;
                   insta = updStep idx (\<lambda>s. s\<lparr>si_Status := StepStatusRetrying,
                              si_RetryCount := attempt, si_LastRetryAt := Some now\<rparr>) inst;
                   wc = snd (UpdateStepStatus stepInstID StepStatusRetrying wb);
                   wd = emitEvent (wi_ID inst) (Some stepInstID) ''step.retry''
                          [''attempt'' \<mapsto> VInt (attempt + 1)] wc
               in (insta, wd)
             else (inst, w))
      in if attempt = 0 then
           let (now, wb) = time_Now w1;
               insta = updStep idx (\<lambda>s. s\<lparr>si_Status := StepStatusRunning,
                          si_StartedAt := Some now\<rparr>) inst1;
               wc = snd (UpdateStepStatus stepInstID StepStatusRunning wb);
               wd = emitEvent (wi_ID inst) (Some stepInstID) ''step.started''
                      [''step_id'' \<mapsto> VStr (sd_ID stepDef)] wc
           in (insta, wd)
         else (inst1, w1))"

definition completeStep ::
  "'u StepDefinition \<Rightarrow> nat \<Rightarrow> vmap \<Rightarrow> int \<Rightarrow> 'u run \<Rightarrow> 'u run" where
  "completeStep stepDef idx output durationMs r =
     (let (inst, w) = r;
          stepInstID = si_ID (wi_Steps inst ! idx);
          (now, w1) = time_Now w;
          inst1 = updStep idx (\<lambda>s. s\<lparr>si_Status := StepStatusCompleted, si_Output := output,
                     si_CompletedAt := Some now\<rparr>) inst;
          w2 = snd (UpdateStepStatus stepInstID StepStatusCompleted w1);
          w3 = snd (UpdateStepOutput stepInstID output w2);
          w4 = emitEvent (wi_ID inst) (Some stepInstID) ''step.completed''
                 [''duration_ms'' \<mapsto> VInt durationMs] w3
      in (mergeStepOutput (sd_ID stepDef) output inst1, w4))"

text \<open>
  The loop \<^verbatim>\<open>for attempt := 0; attempt < retryPolicy.MaxAttempts; attempt++\<close>: the first
  numeric argument counts the iterations left, the second is \<open>attempt\<close>. The context
  (\<^verbatim>\<open>stepCtx\<close>, with its deadline when \<^verbatim>\<open>Timeout > 0\<close>) only reaches the executor,
  whose verdict is all the engine sees of it.
\<close>

fun attemptLoop ::
  "'u StepDefinition \<Rightarrow> nat \<Rightarrow> vmap \<Rightarrow> RetryPolicy \<Rightarrow> nat \<Rightarrow> int \<Rightarrow> string option \<Rightarrow> 'u run
   \<Rightarrow> fault + (attempt_result \<times> 'u run)" where
  "attemptLoop stepDef idx input retryPolicy 0 attempt lastErr r = Inr (Exhausted lastErr, r)"
| "attemptLoop stepDef idx input retryPolicy (Suc n) attempt lastErr r =
     (let (inst1, w1) = beginAttempt stepDef idx retryPolicy attempt r;
          (startTime, w2) = time_Now w1
      in case sd_Executor stepDef of
           None \<Rightarrow> Inl NilDereference
         | Some executor \<Rightarrow>
             let (res, u) = executor (w_user w2) input;
                 w3 = w2\<lparr>w_user := u\<rparr>;
                 (endTime, w4) = time_Now w3;
                 durationMs = (int endTime - int startTime) div 1000000;
                 inst2 = updStep idx (\<lambda>s. s\<lparr>si_DurationMs := durationMs\<rparr>) inst1
             in (case res of
                   Inr output \<Rightarrow>
                     Inr (Succeeded, completeStep stepDef idx output durationMs (inst2, w4))
                 | Inl err \<Rightarrow>
                     attemptLoop stepDef idx input retryPolicy n (attempt + 1) (Some err)
                       (inst2, w4)))"

definition failStep ::
  "'u StepDefinition \<Rightarrow> nat \<Rightarrow> RetryPolicy \<Rightarrow> string option \<Rightarrow> 'u run
   \<Rightarrow> fault + (string option \<times> 'u run)" where
  "failStep stepDef idx retryPolicy lastErr r =
     (let (inst, w) = r;
          stepInstID = si_ID (wi_Steps inst ! idx)
      in case lastErr of
           None \<Rightarrow> Inl NilDereference
         | Some msg \<Rightarrow>
             let (now, w1) = time_Now w;
                 inst1 = updStep idx (\<lambda>s. s\<lparr>si_Status := StepStatusFailed, si_Error := Some msg,
                            si_CompletedAt := Some now\<rparr>) inst;
                 w2 = snd (UpdateStepStatus stepInstID StepStatusFailed w1);
                 w3 = snd (UpdateStepError stepInstID msg w2);
                 w4 = emitEvent (wi_ID inst) (Some stepInstID) ''step.failed''
                        [''error'' \<mapsto> VStr msg,
                         ''retries'' \<mapsto> VInt (si_RetryCount (wi_Steps inst1 ! idx))] w3
             in Inr (Some (''step '' @ sd_ID stepDef @ '' failed after ''
                           @ itoa (MaxAttempts retryPolicy) @ '' attempts: '' @ msg),
                     inst1, w4))"

definition executeStep ::
  "'u StepDefinition \<Rightarrow> nat \<Rightarrow> (string \<Rightarrow> nat option) \<Rightarrow> 'u run
   \<Rightarrow> fault + (string option \<times> 'u run)" where
  "executeStep stepDef idx stepInstMap r =
     (let (inst, w) = r
      in if si_IsCompleted (wi_Steps inst ! idx) then Inr (None, r)
         else
           let input = prepareStepInput stepDef inst stepInstMap;
               retryPolicy =
                 (case sd_RetryPolicy stepDef of
                    None \<Rightarrow> \<lparr>MaxAttempts = 1, InitialInterval = 0, MaxInterval = 0,
                              Multiplier = Some 0, RetryableErrors = []\<rparr>
                  | Some p \<Rightarrow> p)
           in case attemptLoop stepDef idx input retryPolicy
                     (nat (MaxAttempts retryPolicy)) 0 None r of
                Inl f \<Rightarrow> Inl f
              | Inr (Succeeded, r1) \<Rightarrow> Inr (None, r1)
              | Inr (Exhausted lastErr, r1) \<Rightarrow> failStep stepDef idx retryPolicy lastErr r1)"

section \<open>Orchestrator: scheduling (executeSteps)\<close>

fun buildDependencyGraph_from ::
  "'u StepDefinition list \<Rightarrow> (string \<Rightarrow> string list option) \<Rightarrow> (string \<Rightarrow> string list option)" where
  "buildDependencyGraph_from [] graph = graph"
| "buildDependencyGraph_from (step # rest) graph =
     buildDependencyGraph_from rest (graph(sd_ID step \<mapsto> sd_Dependencies step))"

definition buildDependencyGraph ::
  "'u WorkflowDefinition \<Rightarrow> (string \<Rightarrow> string list option)" where
  "buildDependencyGraph workflow = buildDependencyGraph_from (wd_Steps workflow) Map.empty"

text \<open>
  \<^verbatim>\<open>executed\<close> is a \<^verbatim>\<open>map[string]bool\<close> whose entries are only ever set to true: it is
  the list of its keys, without repetition, so that \<^verbatim>\<open>len(executed)\<close> is its length.
  Reading a missing key of \<^verbatim>\<open>graph\<close> gives the nil slice.
\<close>

definition graphDeps :: "(string \<Rightarrow> string list option) \<Rightarrow> string \<Rightarrow> string list" where
  "graphDeps graph k = (case graph k of None \<Rightarrow> [] | Some deps \<Rightarrow> deps)"

definition findReadySteps ::
  "'u WorkflowDefinition \<Rightarrow> string list \<Rightarrow> (string \<Rightarrow> string list option)
   \<Rightarrow> 'u StepDefinition list" where
  "findReadySteps workflow executed graph =
     filter (\<lambda>step. sd_ID step \<notin> set executed
                     \<and> list_all (\<lambda>dep. dep \<in> set executed) (graphDeps graph (sd_ID step)))
            (wd_Steps workflow)"

text \<open>
  \<^verbatim>\<open>sort.Slice\<close> with \<^verbatim>\<open>less(i, j) = Priority[i] > Priority[j]\<close> leaves the steps in
  descending priority and is not stable: steps of equal priority come out in an order of
  the routine's choosing. That choice is the argument \<open>tb\<close>, a ranking of the steps of
  the list being sorted which decides between equal priorities.
\<close>

definition sortByPriority ::
  "('u StepDefinition list \<Rightarrow> 'u StepDefinition \<Rightarrow> nat) \<Rightarrow> 'u StepDefinition list
   \<Rightarrow> 'u StepDefinition list" where
  "sortByPriority tb readySteps =
     sort_key (\<lambda>s. - sd_Priority s) (sort_key (tb readySteps) readySteps)"

fun runSyncSteps ::
  "(string \<Rightarrow> nat option) \<Rightarrow> 'u StepDefinition list \<Rightarrow> string list \<Rightarrow> 'u run
   \<Rightarrow> fault + (string option \<times> string list \<times> 'u run)" where
  "runSyncSteps stepInstMap [] executed r = Inr (None, executed, r)"
| "runSyncSteps stepInstMap (stepDef # rest) executed r =
     (case stepInstMap (sd_ID stepDef) of
        None \<Rightarrow> Inl NilDereference
      | Some idx \<Rightarrow>
          if si_Status (wi_Steps (fst r) ! idx) = StepStatusCompleted
          then runSyncSteps stepInstMap rest (List.insert (sd_ID stepDef) executed) r
          else
            (case executeStep stepDef idx stepInstMap r of
               Inl f \<Rightarrow> Inl f
             | Inr (Some err, inst1, w1) \<Rightarrow>
                 if sd_Required stepDef then Inr (Some err, executed, inst1, w1)
                 else
                   (let inst2 = updStep idx (\<lambda>s. s\<lparr>si_Status := StepStatusSkipped\<rparr>) inst1;
                        w2 = snd (UpdateStepStatus (si_ID (wi_Steps inst1 ! idx))
                                   StepStatusSkipped w1)
                    in runSyncSteps stepInstMap rest (List.insert (sd_ID stepDef) executed)
                         (inst2, w2))
             | Inr (None, r1) \<Rightarrow>
                 runSyncSteps stepInstMap rest (List.insert (sd_ID stepDef) executed) r1))"

text \<open>
  The asynchronous steps of a wave each run in a goroutine of their own. The model runs
  the goroutines to completion one after another, in the order in which they are
  started; \<open>errors\<close> is the content of the channel in the order of sending. Other
  interleavings are not covered.
\<close>

fun runAsyncSteps ::
  "(string \<Rightarrow> nat option) \<Rightarrow> 'u StepDefinition list \<Rightarrow> string list \<Rightarrow> string list \<Rightarrow> 'u run
   \<Rightarrow> fault + (string list \<times> string list \<times> 'u run)" where
  "runAsyncSteps stepInstMap [] errors executed r = Inr (errors, executed, r)"
| "runAsyncSteps stepInstMap (stepDef # rest) errors executed r =
     (case stepInstMap (sd_ID stepDef) of
        None \<Rightarrow> Inl NilDereference
      | Some idx \<Rightarrow>
          if si_Status (wi_Steps (fst r) ! idx) = StepStatusCompleted
          then runAsyncSteps stepInstMap rest errors (List.insert (sd_ID stepDef) executed) r
          else
            (case executeStep stepDef idx stepInstMap r of
               Inl f \<Rightarrow> Inl f
             | Inr (Some err, inst1, w1) \<Rightarrow>
                 if sd_Required stepDef
                 then runAsyncSteps stepInstMap rest (errors @ [err])
                        (List.insert (sd_ID stepDef) executed) (inst1, w1)
                 else
                   (let inst2 = updStep idx (\<lambda>s. s\<lparr>si_Status := StepStatusSkipped\<rparr>) inst1;
                        w2 = snd (UpdateStepStatus (si_ID (wi_Steps inst1 ! idx))
                                   StepStatusSkipped w1)
                    in runAsyncSteps stepInstMap rest errors
                         (List.insert (sd_ID stepDef) executed) (inst2, w2))
             | Inr (None, r1) \<Rightarrow>
                 runAsyncSteps stepInstMap rest errors (List.insert (sd_ID stepDef) executed) r1))"

text \<open>One wave: sort, partition, run the sequential steps, then the asynchronous ones.\<close>

definition runWave ::
  "('u StepDefinition list \<Rightarrow> 'u StepDefinition \<Rightarrow> nat) \<Rightarrow> (string \<Rightarrow> nat option)
   \<Rightarrow> 'u StepDefinition list \<Rightarrow> string list \<Rightarrow> 'u run
   \<Rightarrow> fault + (string option \<times> string list \<times> 'u run)" where
  "runWave tb stepInstMap readySteps executed r =
     (let sorted = sortByPriority tb readySteps;
          syncSteps = filter (\<lambda>stepDef. \<not> sd_Async stepDef) sorted;
          asyncSteps = filter (\<lambda>stepDef. sd_Async stepDef) sorted
      in case runSyncSteps stepInstMap syncSteps executed r of
           Inl f \<Rightarrow> Inl f
         | Inr (Some err, executed1, r1) \<Rightarrow> Inr (Some err, executed1, r1)
         | Inr (None, executed1, r1) \<Rightarrow>
             if length asyncSteps > 0 then
               case runAsyncSteps stepInstMap asyncSteps [] executed1 r1 of
                 Inl f \<Rightarrow> Inl f
               | Inr (errors, executed2, r2) \<Rightarrow>
                   (case errors of
                      err # _ \<Rightarrow> Inr (Some err, executed2, r2)
                    | [] \<Rightarrow> Inr (None, executed2, r2))
             else Inr (None, executed1, r1))"

function executeSteps_loop ::
  "('u StepDefinition list \<Rightarrow> 'u StepDefinition \<Rightarrow> nat) \<Rightarrow> 'u WorkflowDefinition
   \<Rightarrow> (string \<Rightarrow> string list option) \<Rightarrow> (string \<Rightarrow> nat option) \<Rightarrow> string list \<Rightarrow> 'u run
   \<Rightarrow> fault + (string option \<times> 'u run)" where
  "executeSteps_loop tb workflow graph stepInstMap executed r =
     (let readySteps = findReadySteps workflow executed graph
      in if length readySteps = 0 then Inr (None, r)
         else
           case runWave tb stepInstMap readySteps executed r of
             Inl f \<Rightarrow> Inl f
           | Inr (Some err, executed1, r1) \<Rightarrow> Inr (Some err, r1)
           | Inr (None, executed1, r1) \<Rightarrow>
               if length executed1 = length (wd_Steps workflow) then Inr (None, r1)
               else executeSteps_loop tb workflow graph stepInstMap executed1 r1)"
  by pat_completeness auto

text \<open>
  The loop ends: every wave that returns without error marks each of its ready steps as
  executed, and a ready step was not executed before.
\<close>

lemma runSyncSteps_executed:
  "runSyncSteps sim sds ex r = Inr (None, ex1, r1) \<Longrightarrow> set ex1 = set ex \<union> sd_ID ` set sds"
  by (induction sim sds ex r rule: runSyncSteps.induct)
     (auto split: option.splits if_splits sum.splits prod.splits simp: Let_def)

lemma runAsyncSteps_executed:
  "runAsyncSteps sim sds errs ex r = Inr (errs1, ex1, r1) \<Longrightarrow> set ex1 = set ex \<union> sd_ID ` set sds"
  by (induction sim sds errs ex r rule: runAsyncSteps.induct)
     (auto split: option.splits if_splits sum.splits prod.splits simp: Let_def)

lemma set_sortByPriority: "set (sortByPriority tb xs) = set xs"
  by (simp add: sortByPriority_def)

lemma runWave_executed:
  assumes "runWave tb sim ready ex r = Inr (None, ex1, r1)"
  shows "set ex1 = set ex \<union> sd_ID ` set ready"
proof -
  let ?sorted = "sortByPriority tb ready"
  let ?sync = "filter (\<lambda>d. \<not> sd_Async d) ?sorted"
  let ?async = "filter (\<lambda>d. sd_Async d) ?sorted"
  have part: "sd_ID ` set ?sync \<union> sd_ID ` set ?async = sd_ID ` set ready"
    by (auto simp: set_sortByPriority)
  from assms obtain exs rs where s: "runSyncSteps sim ?sync ex r = Inr (None, exs, rs)"
    unfolding runWave_def Let_def
    by (auto split: sum.splits prod.splits option.splits if_splits list.splits)
  have exs: "set exs = set ex \<union> sd_ID ` set ?sync"
    using runSyncSteps_executed [OF s] .
  show ?thesis
  proof (cases "?async = []")
    case True
    with assms s have "ex1 = exs"
      unfolding runWave_def Let_def by simp
    moreover from True have "sd_ID ` set ?async = {}" by simp
    ultimately show ?thesis using exs part by auto
  next
    case False
    with assms s obtain errs where
      a: "runAsyncSteps sim ?async [] exs rs = Inr (errs, ex1, r1)"
      unfolding runWave_def Let_def
      by (auto split: sum.splits prod.splits option.splits if_splits list.splits)
    from runAsyncSteps_executed [OF a] exs part show ?thesis by auto
  qed
qed

lemma findReadySteps_fresh:
  "s \<in> set (findReadySteps workflow executed graph) \<Longrightarrow>
     sd_ID s \<notin> set executed \<and> s \<in> set (wd_Steps workflow)"
  by (simp add: findReadySteps_def)

lemma wave_progress:
  assumes "findReadySteps workflow executed graph \<noteq> []"
    and "runWave tb sim (findReadySteps workflow executed graph) executed r = Inr (None, ex1, r1)"
  shows "card (sd_ID ` set (wd_Steps workflow) - set ex1)
         < card (sd_ID ` set (wd_Steps workflow) - set executed)"
proof -
  from assms(1) obtain s where s: "s \<in> set (findReadySteps workflow executed graph)"
    by (cases "findReadySteps workflow executed graph") auto
  from findReadySteps_fresh [OF s] have
    fresh: "sd_ID s \<notin> set executed" and mem: "sd_ID s \<in> sd_ID ` set (wd_Steps workflow)"
    by auto
  from runWave_executed [OF assms(2)] s have "sd_ID s \<in> set ex1" and "set executed \<subseteq> set ex1"
    by auto
  with fresh mem have
    "sd_ID ` set (wd_Steps workflow) - set ex1 \<subset> sd_ID ` set (wd_Steps workflow) - set executed"
    by auto
  then show ?thesis by (intro psubset_card_mono) auto
qed

termination executeSteps_loop
  by (relation "measure (\<lambda>(tb, workflow, graph, sim, executed, r).
        card (sd_ID ` set (wd_Steps workflow) - set executed))")
     (auto intro: wave_progress)


declare executeSteps_loop.simps [simp del]

definition executeSteps ::
  "('u StepDefinition list \<Rightarrow> 'u StepDefinition \<Rightarrow> nat) \<Rightarrow> 'u WorkflowDefinition
   \<Rightarrow> (string \<Rightarrow> string list option) \<Rightarrow> 'u run \<Rightarrow> fault + (string option \<times> 'u run)" where
  "executeSteps tb workflow graph r =
     executeSteps_loop tb workflow graph (buildStepInstMap (wi_Steps (fst r))) [] r"

section \<open>Orchestrator: executeWorkflow, StartWorkflow, ResumeWorkflow\<close>

fun createStepInstances ::
  "'u StepDefinition list \<Rightarrow> int \<Rightarrow> 'u run \<Rightarrow> string option \<times> 'u run" where
  "createStepInstances [] i r = (None, r)"
| "createStepInstances (stepDef # rest) i r =
     (let (inst, w) = r;
          (sid, w1) = uuid_New w;
          stepInst = \<lparr>si_ID = sid, si_StepID = sd_ID stepDef, si_WorkflowInstID = wi_ID inst,
                      si_Status = StepStatusPending, si_Input = Map.empty,
                      si_Output = Map.empty, si_StartedAt = None, si_CompletedAt = None,
                      si_Error = None, si_RetryCount = 0, si_LastRetryAt = None,
                      si_DurationMs = 0, si_ExecutionOrder = i\<rparr>;
          inst1 = inst\<lparr>wi_Steps := wi_Steps inst @ [stepInst]\<rparr>
      in case SaveStep stepInst w1 of
           (Some err, w2) \<Rightarrow> (Some (''failed to save step: '' @ err), inst1, w2)
         | (None, w2) \<Rightarrow> createStepInstances rest (i + 1) (inst1, w2))"

text \<open>
  The result of \<^verbatim>\<open>executeWorkflow\<close>, \<^verbatim>\<open>StartWorkflow\<close> and \<^verbatim>\<open>ResumeWorkflow\<close> is the
  pair \<^verbatim>\<open>(*WorkflowResult, error)\<close> and the environment left behind.
\<close>

type_synonym 'u outcome = "(WorkflowResult option \<times> string option) \<times> 'u world"

definition executeWorkflow ::
  "('u StepDefinition list \<Rightarrow> 'u StepDefinition \<Rightarrow> nat) \<Rightarrow> 'u WorkflowDefinition
   \<Rightarrow> 'u run \<Rightarrow> fault + 'u outcome" where
  "executeWorkflow tb workflow r =
     (let (instance, w) = r;
          (startTime, w1) = time_Now w;
          inst1 = instance\<lparr>wi_Status := WorkflowStatusRunning\<rparr>
      in case UpdateWorkflowStatus (wi_ID inst1) WorkflowStatusRunning w1 of
           (Some err, w2) \<Rightarrow> Inr ((None, Some (''failed to update workflow status: '' @ err)), w2)
         | (None, w2) \<Rightarrow>
             (case (if length (wi_Steps inst1) = 0
                    then createStepInstances (wd_Steps workflow) 0 (inst1, w2)
                    else (None, inst1, w2)) of
                (Some err, inst2, w3) \<Rightarrow> Inr ((None, Some err), w3)
              | (None, inst2, w3) \<Rightarrow>
                  (let graph = buildDependencyGraph workflow
                   in case executeSteps tb workflow graph (inst2, w3) of
                        Inl f \<Rightarrow> Inl f
                      | Inr (Some err, inst3, w4) \<Rightarrow>
                          (let (now, w5) = time_Now w4;
                               inst4 = inst3\<lparr>wi_Status := WorkflowStatusFailed,
                                          wi_Error := Some err, wi_CompletedAt := Some now\<rparr>;
                               w6 = snd (UpdateWorkflowStatus (wi_ID inst4) WorkflowStatusFailed w5);
                               w7 = snd (UpdateWorkflowError (wi_ID inst4) err w6);
                               w8 = emitEvent (wi_ID inst4) None ''workflow.failed''
                                      [''error'' \<mapsto> VStr err] w7;
                               (endTime, w9) = time_Now w8
                           in Inr ((Some \<lparr>wr_Success = False, wr_WorkflowInst = inst4,
                                           wr_Output = Map.empty, wr_Error = Some err,
                                           wr_Duration = endTime - startTime\<rparr>,
                                    Some err), w9))
                      | Inr (None, inst3, w4) \<Rightarrow>
                          (let (now, w5) = time_Now w4;
                               inst4 = inst3\<lparr>wi_Status := WorkflowStatusCompleted,
                                          wi_CompletedAt := Some now\<rparr>
                           in case UpdateWorkflowStatus (wi_ID inst4) WorkflowStatusCompleted w5 of
                                (Some err, w6) \<Rightarrow>
                                  Inr ((None, Some (''failed to update workflow status: '' @ err)), w6)
                              | (None, w6) \<Rightarrow>
                                  (let (t1, w7) = time_Now w6;
                                       w8 = emitEvent (wi_ID inst4) None ''workflow.completed''
                                              [''duration_ms'' \<mapsto>
                                                 VInt ((int t1 - int startTime) div 1000000)] w7;
                                       (endTime, w9) = time_Now w8
                                   in Inr ((Some \<lparr>wr_Success = True, wr_WorkflowInst = inst4,
                                                   wr_Output = wi_Output inst4, wr_Error = None,
                                                   wr_Duration = endTime - startTime\<rparr>,
                                            None), w9))))))"

text \<open>
  \<^verbatim>\<open>ctx.Value\<close> is a lookup in the values carried by the context, here a mapping; the
  type assertion \<^verbatim>\<open>.(string)\<close> succeeds on a string value only.
\<close>

definition getTraceID :: "vmap \<Rightarrow> vmap \<Rightarrow> 'u world \<Rightarrow> string \<times> 'u world" where
  "getTraceID ctx metadata w =
     (case metadata ''trace_id'' of
        Some (VStr traceID) \<Rightarrow> (traceID, w)
      | _ \<Rightarrow> (case ctx ''trace_id'' of
                Some (VStr traceID) \<Rightarrow> (traceID, w)
              | _ \<Rightarrow> uuid_New w))"

definition getCorrelationID :: "vmap \<Rightarrow> vmap \<Rightarrow> 'u world \<Rightarrow> string \<times> 'u world" where
  "getCorrelationID ctx metadata w =
     (case metadata ''correlation_id'' of
        Some (VStr correlationID) \<Rightarrow> (correlationID, w)
      | _ \<Rightarrow> (case ctx ''correlation_id'' of
                Some (VStr correlationID) \<Rightarrow> (correlationID, w)
              | _ \<Rightarrow> uuid_New w))"

definition getBusinessID :: "vmap \<Rightarrow> vmap \<Rightarrow> string" where
  "getBusinessID ctx metadata =
     (case metadata ''business_id'' of
        Some (VStr businessID) \<Rightarrow> businessID
      | _ \<Rightarrow> (case ctx ''business_id'' of
                Some (VStr businessID) \<Rightarrow> businessID
              | _ \<Rightarrow> []))"

definition StartWorkflow ::
  "('u StepDefinition list \<Rightarrow> 'u StepDefinition \<Rightarrow> nat) \<Rightarrow> 'u registry \<Rightarrow> vmap \<Rightarrow> string
   \<Rightarrow> vmap \<Rightarrow> vmap \<Rightarrow> 'u world \<Rightarrow> fault + 'u outcome" where
  "StartWorkflow tb workflows ctx workflowID input metadata w =
     (case orch_GetWorkflow workflows workflowID of
        Inl err \<Rightarrow> Inr ((None, Some err), w)
      | Inr workflow \<Rightarrow>
          (let (iid, w1) = uuid_New w;
               (startedAt, w2) = time_Now w1;
               (traceID, w3) = getTraceID ctx metadata w2;
               (correlationID, w4) = getCorrelationID ctx metadata w3;
               instance = \<lparr>wi_ID = iid, wi_WorkflowID = workflowID,
                           wi_Status = WorkflowStatusPending, wi_Input = input,
                           wi_Output = Map.empty, wi_Context = Map.empty,
                           wi_CurrentStepID = [], wi_Steps = [], wi_StartedAt = startedAt,
                           wi_CompletedAt = None, wi_Error = None, wi_RetryCount = 0,
                           wi_LastRetryAt = None, wi_Metadata = metadata,
                           wi_TraceID = traceID, wi_CorrelationID = correlationID,
                           wi_BusinessID = getBusinessID ctx metadata\<rparr>
           in case SaveWorkflow instance w4 of
                (Some err, w5) \<Rightarrow> Inr ((None, Some (''failed to save workflow: '' @ err)), w5)
              | (None, w5) \<Rightarrow>
                  (let w6 = emitEvent (wi_ID instance) None ''workflow.started''
                              [''workflow_id'' \<mapsto> VStr workflowID] w5
                   in executeWorkflow tb workflow (instance, w6))))"

definition ResumeWorkflow ::
  "('u StepDefinition list \<Rightarrow> 'u StepDefinition \<Rightarrow> nat) \<Rightarrow> 'u registry \<Rightarrow> string
   \<Rightarrow> 'u world \<Rightarrow> fault + 'u outcome" where
  "ResumeWorkflow tb workflows workflowInstID w =
     (case GetWorkflow workflowInstID w of
        Inl err \<Rightarrow> Inr ((None, Some (''failed to load workflow: '' @ err)), w)
      | Inr instance \<Rightarrow>
          (case orch_GetWorkflow workflows (wi_WorkflowID instance) of
             Inl err \<Rightarrow> Inr ((None, Some err), w)
           | Inr workflow \<Rightarrow>
               if wi_IsCompleted instance then
                 (let (now, w1) = time_Now w
                  in Inr ((Some \<lparr>wr_Success = (wi_Status instance = WorkflowStatusCompleted),
                                  wr_WorkflowInst = instance, wr_Output = wi_Output instance,
                                  wr_Error = None, wr_Duration = now - wi_StartedAt instance\<rparr>,
                           None), w1))
               else executeWorkflow tb workflow (instance, w)))"

definition GetWorkflowStatus :: "string \<Rightarrow> 'u world \<Rightarrow> string + vmap WorkflowInstance" where
  "GetWorkflowStatus workflowInstID w = GetWorkflow workflowInstID w"

section \<open>In-memory store: the view with map objects\<close>

text \<open>
  A Go map is a reference to a map object, and a value of type \<^verbatim>\<open>interface{}\<close> that
  holds a map holds such a reference. To see which map objects two instances share, the
  map objects live in a heap (a list; an address is an index), a mapping-valued field is
  an address or nil, and a nested mapping is a value \<open>HMapRef\<close>.
\<close>

datatype hval = HNil | HBool bool | HInt int | HStr string | HMapRef nat

type_synonym hmap = "string \<Rightarrow> hval option"
type_synonym heap = "hmap list"
type_synonym mapref = "nat option"

definition entries :: "heap \<Rightarrow> mapref \<Rightarrow> hmap" where
  "entries h m = (case m of None \<Rightarrow> Map.empty
                  | Some a \<Rightarrow> if a < length h then h ! a else Map.empty)"

definition make_map :: "heap \<Rightarrow> nat \<times> heap" where
  "make_map h = (length h, h @ [Map.empty])"

text \<open>\<^verbatim>\<open>m[k] = v\<close> on the map object at address \<open>a\<close>.\<close>

definition map_store :: "nat \<Rightarrow> string \<Rightarrow> hval \<Rightarrow> heap \<Rightarrow> heap" where
  "map_store a k v h = h[a := (h ! a)(k \<mapsto> v)]"

text \<open>
  \<^verbatim>\<open>copy.F = make(map[string]interface{}); for k, v := range w.F { copy.F[k] = v }\<close>:
  a new map object that receives the entries of the old one, values as they are.
\<close>

definition copy_map :: "mapref \<Rightarrow> heap \<Rightarrow> mapref \<times> heap" where
  "copy_map src h =
     (let (a, h1) = make_map h
      in (Some a, h1[a := (h1 ! a) ++ entries h src]))"

definition deepCopyStep_h :: "mapref StepInstance \<Rightarrow> heap \<Rightarrow> mapref StepInstance \<times> heap" where
  "deepCopyStep_h s h =
     (let (input, h1) = copy_map (si_Input s) h;
          (output, h2) = copy_map (si_Output s) h1
      in (\<lparr>si_ID = si_ID s, si_StepID = si_StepID s, si_WorkflowInstID = si_WorkflowInstID s,
           si_Status = si_Status s, si_Input = input, si_Output = output,
           si_StartedAt = (case si_StartedAt s of None \<Rightarrow> None | Some t \<Rightarrow> Some t),
           si_CompletedAt = (case si_CompletedAt s of None \<Rightarrow> None | Some t \<Rightarrow> Some t),
           si_Error = (case si_Error s of None \<Rightarrow> None | Some e \<Rightarrow> Some e),
           si_RetryCount = si_RetryCount s,
           si_LastRetryAt = (case si_LastRetryAt s of None \<Rightarrow> None | Some t \<Rightarrow> Some t),
           si_DurationMs = si_DurationMs s, si_ExecutionOrder = si_ExecutionOrder s\<rparr>, h2))"

fun deepCopySteps_h ::
  "mapref StepInstance list \<Rightarrow> heap \<Rightarrow> mapref StepInstance list \<times> heap" where
  "deepCopySteps_h [] h = ([], h)"
| "deepCopySteps_h (step # rest) h =
     (let (step1, h1) = deepCopyStep_h step h;
          (rest1, h2) = deepCopySteps_h rest h1
      in (step1 # rest1, h2))"

definition deepCopyWorkflow_h ::
  "mapref WorkflowInstance \<Rightarrow> heap \<Rightarrow> mapref WorkflowInstance \<times> heap" where
  "deepCopyWorkflow_h w h =
     (let (input, h1) = copy_map (wi_Input w) h;
          (output, h2) = copy_map (wi_Output w) h1;
          (context, h3) = copy_map (wi_Context w) h2;
          (metadata, h4) = copy_map (wi_Metadata w) h3;
          (steps, h5) = deepCopySteps_h (wi_Steps w) h4
      in (\<lparr>wi_ID = wi_ID w, wi_WorkflowID = wi_WorkflowID w, wi_Status = wi_Status w,
           wi_Input = input, wi_Output = output, wi_Context = context,
           wi_CurrentStepID = wi_CurrentStepID w, wi_Steps = steps,
           wi_StartedAt = wi_StartedAt w,
           wi_CompletedAt = (case wi_CompletedAt w of None \<Rightarrow> None | Some t \<Rightarrow> Some t),
           wi_Error = (case wi_Error w of None \<Rightarrow> None | Some e \<Rightarrow> Some e),
           wi_RetryCount = wi_RetryCount w,
           wi_LastRetryAt = (case wi_LastRetryAt w of None \<Rightarrow> None | Some t \<Rightarrow> Some t),
           wi_Metadata = metadata, wi_TraceID = wi_TraceID w,
           wi_CorrelationID = wi_CorrelationID w, wi_BusinessID = wi_BusinessID w\<rparr>, h5))"

record hstore =
  hs_workflows :: "string \<Rightarrow> mapref WorkflowInstance option"
  hs_steps :: "string \<Rightarrow> mapref StepInstance option"
  hs_heap :: heap

definition SaveWorkflow_h :: "mapref WorkflowInstance \<Rightarrow> hstore \<Rightarrow> string option \<times> hstore" where
  "SaveWorkflow_h workflow m =
     (let (workflowCopy, h1) = deepCopyWorkflow_h workflow (hs_heap m)
      in (None, m\<lparr>hs_workflows := (hs_workflows m)(wi_ID workflow \<mapsto> workflowCopy),
                  hs_heap := h1\<rparr>))"

definition GetWorkflow_h ::
  "string \<Rightarrow> hstore \<Rightarrow> (string + mapref WorkflowInstance) \<times> hstore" where
  "GetWorkflow_h workflowInstID m =
     (case hs_workflows m workflowInstID of
        None \<Rightarrow> (Inl (''workflow not found: '' @ workflowInstID), m)
      | Some workflow \<Rightarrow>
          (let (workflowCopy, h1) = deepCopyWorkflow_h workflow (hs_heap m)
           in (Inr workflowCopy, m\<lparr>hs_heap := h1\<rparr>)))"

definition SaveStep_h :: "mapref StepInstance \<Rightarrow> hstore \<Rightarrow> string option \<times> hstore" where
  "SaveStep_h step m =
     (let (stepCopy, h1) = deepCopyStep_h step (hs_heap m)
      in (None, m\<lparr>hs_steps := (hs_steps m)(si_ID step \<mapsto> stepCopy), hs_heap := h1\<rparr>))"

definition GetStep_h :: "string \<Rightarrow> hstore \<Rightarrow> (string + mapref StepInstance) \<times> hstore" where
  "GetStep_h stepInstID m =
     (case hs_steps m stepInstID of
        None \<Rightarrow> (Inl (''step not found: '' @ stepInstID), m)
      | Some step \<Rightarrow>
          (let (stepCopy, h1) = deepCopyStep_h step (hs_heap m)
           in (Inr stepCopy, m\<lparr>hs_heap := h1\<rparr>)))"

text \<open>
  What a caller reads at \<^verbatim>\<open>inst.Input[k1].(map[string]interface{})[k2]\<close>: the entry
  \<open>k2\<close> of the map object that the entry \<open>k1\<close> of the input refers to.
\<close>

definition nested_input :: "heap \<Rightarrow> mapref WorkflowInstance \<Rightarrow> string \<Rightarrow> string \<Rightarrow> hval option" where
  "nested_input h inst k1 k2 =
     (case entries h (wi_Input inst) k1 of
        Some (HMapRef a) \<Rightarrow> entries h (Some a) k2
      | _ \<Rightarrow> None)"

section \<open>Scenarios\<close>

text \<open>
  A fresh environment: an empty store, the clock at zero, no identifier drawn yet. The
  identifiers drawn are \<open>uuid-0\<close>, \<open>uuid-1\<close>, ...: any stream of distinct strings
  would do.
\<close>

definition init_world :: "(nat \<Rightarrow> string) \<Rightarrow> 'u \<Rightarrow> 'u world" where
  "init_world src u =
     \<lparr>w_sm = NewInMemoryStateManager, w_user = u, w_clock = 0, w_uuid_src = src,
      w_uuid_next = 0, w_slept = []\<rparr>"

definition uuid_seq :: "nat \<Rightarrow> string" where
  "uuid_seq n = ''uuid-'' @ digits n"

text \<open>What \<^verbatim>\<open>NewStepBuilder(id, name, executor).Build()\<close> and
  \<^verbatim>\<open>NewWorkflowBuilder(id, name)\<close> with \<^verbatim>\<open>AddStep\<close> produce.\<close>

definition NewStep :: "string \<Rightarrow> string \<Rightarrow> 'u StepExecutor \<Rightarrow> 'u StepDefinition" where
  "NewStep sid name executor =
     \<lparr>sd_ID = sid, sd_Name = name, sd_Description = [], sd_Executor = Some executor,
      sd_Compensator = None, sd_Dependencies = [], sd_RetryPolicy = None, sd_Timeout = 0,
      sd_Required = True, sd_Async = False, sd_Priority = 0\<rparr>"

definition NewWorkflow :: "string \<Rightarrow> string \<Rightarrow> 'u StepDefinition list \<Rightarrow> 'u WorkflowDefinition" where
  "NewWorkflow wid name stepDefs =
     \<lparr>wd_ID = wid, wd_Name = name, wd_Description = [], wd_Version = ''1.0.0'',
      wd_Steps = stepDefs, wd_Metadata = Map.empty\<rparr>"



text \<open>An executor that succeeds with an empty output and keeps no state.\<close>

definition ok_executor :: "unit StepExecutor" where
  "ok_executor u input = (Inr Map.empty, u)"

text \<open>Two steps that depend on each other, and a step with a dependency that names no step.\<close>

definition cyclic_workflow :: "unit WorkflowDefinition" where
  "cyclic_workflow =
     NewWorkflow ''W'' ''cyclic''
       [(NewStep ''A'' ''Step A'' ok_executor)\<lparr>sd_Dependencies := [''B'']\<rparr>,
        (NewStep ''B'' ''Step B'' ok_executor)\<lparr>sd_Dependencies := [''A'']\<rparr>]"

definition dangling_workflow :: "unit WorkflowDefinition" where
  "dangling_workflow =
     NewWorkflow ''W'' ''dangling''
       [(NewStep ''A'' ''Step A'' ok_executor)\<lparr>sd_Dependencies := [''non-existing'']\<rparr>]"






text \<open>
  The spec's \<open>initial * multiplier^(i-1)\<close> in exact arithmetic, before conversion to a
  duration, and the power \<open>multiplier^j\<close> in \<^verbatim>\<open>float64\<close> arithmetic: \<open>j - 1\<close> products,
  each rounded.
\<close>

definition uncapped :: "RetryPolicy \<Rightarrow> int \<Rightarrow> real" where
  "uncapped policy attempt =
     (case Multiplier policy of
        None \<Rightarrow> 0
      | Some m \<Rightarrow> real_of_int (InitialInterval policy) * m ^ nat (attempt - 1))"

primrec fpow :: "float64 \<Rightarrow> nat \<Rightarrow> float64" where
  "fpow b 0 = Some 1"
| "fpow b (Suc j) = (if j = 0 then b else f64_mul (fpow b j) b)"

definition policy_no_cap :: RetryPolicy where
  "policy_no_cap = \<lparr>MaxAttempts = 3, InitialInterval = 1000000, MaxInterval = 0,
                     Multiplier = Some 2, RetryableErrors = []\<rparr>"

definition policy_halving :: RetryPolicy where
  "policy_halving = \<lparr>MaxAttempts = 3, InitialInterval = 1000, MaxInterval = 0,
                      Multiplier = Some (1 / 2), RetryableErrors = []\<rparr>"

text \<open>
  One second initial interval with multiplier 1.7 and a maximum of thirty seconds, and a
  policy whose initial interval \<open>2^53 + 1\<close> is not a \<^verbatim>\<open>float64\<close>.
\<close>

definition policy_backoff :: RetryPolicy where
  "policy_backoff = \<lparr>MaxAttempts = 3, InitialInterval = 1000000000,
                      MaxInterval = 30000000000, Multiplier = Some (17 / 10),
                      RetryableErrors = []\<rparr>"

definition policy_large :: RetryPolicy where
  "policy_large = \<lparr>MaxAttempts = 3, InitialInterval = 9007199254740993, MaxInterval = 0,
                     Multiplier = Some 1, RetryableErrors = []\<rparr>"

text \<open>
  The store of \<^verbatim>\<open>TestInMemoryStateManager_GetWorkflowSteps\<close>: three saved steps, two
  of them of workflow \<open>test-workflow\<close> with execution orders 1 and 2.
\<close>

definition test_step :: "string \<Rightarrow> string \<Rightarrow> string \<Rightarrow> int \<Rightarrow> vmap StepInstance" where
  "test_step iid sid wid ord =
     \<lparr>si_ID = iid, si_StepID = sid, si_WorkflowInstID = wid, si_Status = StepStatusPending,
      si_Input = Map.empty, si_Output = Map.empty, si_StartedAt = None, si_CompletedAt = None,
      si_Error = None, si_RetryCount = 0, si_LastRetryAt = None, si_DurationMs = 0,
      si_ExecutionOrder = ord\<rparr>"

definition steps_world :: "unit world" where
  "steps_world =
     snd (SaveStep (test_step ''step3'' ''s3'' ''other-workflow'' 1)
       (snd (SaveStep (test_step ''step2'' ''s2'' ''test-workflow'' 2)
         (snd (SaveStep (test_step ''step1'' ''s1'' ''test-workflow'' 1)
           (init_world uuid_seq ()))))))"

text \<open>Scenario S1: one step that returns \<open>{r: ok}\<close>.\<close>

definition s1_exec :: "unit StepExecutor" where
  "s1_exec u input = (Inr [''r'' \<mapsto> VStr ''ok''], u)"

definition s1_workflow :: "unit WorkflowDefinition" where
  "s1_workflow = NewWorkflow ''W'' ''S1'' [NewStep ''S'' ''Step'' s1_exec]"

text \<open>
  A step that always fails with \<open>boom\<close> and counts its invocations, under a policy of
  three attempts whose retryable patterns are \<open>timeout\<close> only.
\<close>

definition boom_counting :: "nat StepExecutor" where
  "boom_counting u input = (Inl ''boom'', u + 1)"

definition timeout_only_policy :: RetryPolicy where
  "timeout_only_policy =
     \<lparr>MaxAttempts = 3, InitialInterval = 0, MaxInterval = 0, Multiplier = Some 2,
      RetryableErrors = [''timeout'']\<rparr>"

definition boom_workflow :: "nat WorkflowDefinition" where
  "boom_workflow =
     NewWorkflow ''W'' ''retry''
       [(NewStep ''S'' ''Step'' boom_counting)\<lparr>sd_RetryPolicy := Some timeout_only_policy\<rparr>]"

text \<open>
  A workflow instance whose input is \<open>{cfg: {a: 1}}\<close>: the map object at address 0 is
  the nested mapping, the one at address 1 the input.
\<close>

definition nested_heap :: heap where
  "nested_heap = [[''a'' \<mapsto> HInt 1], [''cfg'' \<mapsto> HMapRef 0, ''key'' \<mapsto> HStr ''value'']]"

definition nested_instance :: "mapref WorkflowInstance" where
  "nested_instance =
     \<lparr>wi_ID = ''test-workflow'', wi_WorkflowID = ''test'', wi_Status = WorkflowStatusPending,
      wi_Input = Some 1, wi_Output = None, wi_Context = None, wi_CurrentStepID = [],
      wi_Steps = [], wi_StartedAt = 0, wi_CompletedAt = None, wi_Error = None,
      wi_RetryCount = 0, wi_LastRetryAt = None, wi_Metadata = None, wi_TraceID = [],
      wi_CorrelationID = [], wi_BusinessID = []\<rparr>"

definition nested_store :: hstore where
  "nested_store =
     snd (SaveWorkflow_h nested_instance
            \<lparr>hs_workflows = Map.empty, hs_steps = Map.empty, hs_heap = nested_heap\<rparr>)"

text \<open>
  The caller's two writes through an instance it has read:
  \<^verbatim>\<open>inst.Input[k] = v\<close> and \<^verbatim>\<open>inst.Input[k1].(map[string]interface{})[k2] = v\<close>.
\<close>

definition set_input :: "mapref WorkflowInstance \<Rightarrow> string \<Rightarrow> hval \<Rightarrow> hstore \<Rightarrow> hstore" where
  "set_input inst k v m =
     (case wi_Input inst of
        None \<Rightarrow> m
      | Some a \<Rightarrow> m\<lparr>hs_heap := map_store a k v (hs_heap m)\<rparr>)"

definition set_nested_input ::
  "mapref WorkflowInstance \<Rightarrow> string \<Rightarrow> string \<Rightarrow> hval \<Rightarrow> hstore \<Rightarrow> hstore" where
  "set_nested_input inst k1 k2 v m =
     (case entries (hs_heap m) (wi_Input inst) k1 of
        Some (HMapRef a) \<Rightarrow> m\<lparr>hs_heap := map_store a k2 v (hs_heap m)\<rparr>
      | _ \<Rightarrow> m)"






text \<open>
  Capturing the order of execution: a recording executor appends the name it is given to
  the list that the executors share, whatever it returns. In a recording workflow the
  step identifiers are pairwise different and every step is sequential, has no retry
  policy (one attempt) and has the recording executor of its own identifier; \<open>body\<close> gives
  the result of each step from its input, a failure or an output.
\<close>

definition recorder :: "string \<Rightarrow> (vmap \<Rightarrow> string + vmap) \<Rightarrow> string list StepExecutor" where
  "recorder name body u input = (body input, u @ [name])"







text \<open>
  A workflow of two waves: \<open>D\<close> runs first; then \<open>E\<close> (priority 0) and \<open>F\<close> (priority 10,
  optional, failing) are ready together, and \<open>G\<close> (priority 5) depends on \<open>F\<close>. The steps
  are added in the order \<open>E\<close>, \<open>G\<close>, \<open>F\<close>, \<open>D\<close>.
\<close>

definition s3w_body :: "string \<Rightarrow> vmap \<Rightarrow> string + vmap" where
  "s3w_body name input = (if name = ''F'' then Inl ''unavailable'' else Inr Map.empty)"

definition s3w_step :: "string \<Rightarrow> string list \<Rightarrow> int \<Rightarrow> bool \<Rightarrow> string list StepDefinition" where
  "s3w_step name deps priority required =
     (NewStep name name (recorder name (s3w_body name)))
       \<lparr>sd_Dependencies := deps, sd_Priority := priority, sd_Required := required\<rparr>"


section \<open>Evaluating runs\<close>

text \<open>
  Unfolding rules that evaluate a run of the engine on a concrete environment. The rules
  for functions that take the environment apply to an environment written out as a record
  only, and the congruence rules are the weak ones: an argument is evaluated before the
  function applied to it is unfolded, and a branch only after its condition is decided.
\<close>

lemmas eval_world =
  time_Now_def [where w = "\<lparr>w_sm = sm, w_user = u, w_clock = c, w_uuid_src = src, w_uuid_next = n, w_slept = sl\<rparr>"]
  uuid_New_def [where w = "\<lparr>w_sm = sm, w_user = u, w_clock = c, w_uuid_src = src, w_uuid_next = n, w_slept = sl\<rparr>"]
  SaveWorkflow_def [where w = "\<lparr>w_sm = sm, w_user = u, w_clock = c, w_uuid_src = src, w_uuid_next = n, w_slept = sl\<rparr>"]
  GetWorkflow_def [where w = "\<lparr>w_sm = sm, w_user = u, w_clock = c, w_uuid_src = src, w_uuid_next = n, w_slept = sl\<rparr>"]
  UpdateWorkflowStatus_def [where w = "\<lparr>w_sm = sm, w_user = u, w_clock = c, w_uuid_src = src, w_uuid_next = n, w_slept = sl\<rparr>"]
  UpdateWorkflowOutput_def [where w = "\<lparr>w_sm = sm, w_user = u, w_clock = c, w_uuid_src = src, w_uuid_next = n, w_slept = sl\<rparr>"]
  UpdateWorkflowError_def [where w = "\<lparr>w_sm = sm, w_user = u, w_clock = c, w_uuid_src = src, w_uuid_next = n, w_slept = sl\<rparr>"]
  SaveStep_def [where w = "\<lparr>w_sm = sm, w_user = u, w_clock = c, w_uuid_src = src, w_uuid_next = n, w_slept = sl\<rparr>"]
  GetStep_def [where w = "\<lparr>w_sm = sm, w_user = u, w_clock = c, w_uuid_src = src, w_uuid_next = n, w_slept = sl\<rparr>"]
  UpdateStepStatus_def [where w = "\<lparr>w_sm = sm, w_user = u, w_clock = c, w_uuid_src = src, w_uuid_next = n, w_slept = sl\<rparr>"]
  UpdateStepOutput_def [where w = "\<lparr>w_sm = sm, w_user = u, w_clock = c, w_uuid_src = src, w_uuid_next = n, w_slept = sl\<rparr>"]
  UpdateStepError_def [where w = "\<lparr>w_sm = sm, w_user = u, w_clock = c, w_uuid_src = src, w_uuid_next = n, w_slept = sl\<rparr>"]
  SaveEvent_def [where w = "\<lparr>w_sm = sm, w_user = u, w_clock = c, w_uuid_src = src, w_uuid_next = n, w_slept = sl\<rparr>"]
  emitEvent_def [where w = "\<lparr>w_sm = sm, w_user = u, w_clock = c, w_uuid_src = src, w_uuid_next = n, w_slept = sl\<rparr>"]
  getTraceID_def [where w = "\<lparr>w_sm = sm, w_user = u, w_clock = c, w_uuid_src = src, w_uuid_next = n, w_slept = sl\<rparr>"]
  getCorrelationID_def [where w = "\<lparr>w_sm = sm, w_user = u, w_clock = c, w_uuid_src = src, w_uuid_next = n, w_slept = sl\<rparr>"]
  StartWorkflow_def [where w = "\<lparr>w_sm = sm, w_user = u, w_clock = c, w_uuid_src = src, w_uuid_next = n, w_slept = sl\<rparr>"]
  ResumeWorkflow_def [where w = "\<lparr>w_sm = sm, w_user = u, w_clock = c, w_uuid_src = src, w_uuid_next = n, w_slept = sl\<rparr>"]
  time_Sleep_def [where w = "\<lparr>w_sm = sm, w_user = u, w_clock = c, w_uuid_src = src, w_uuid_next = n, w_slept = sl\<rparr>"]
  beginAttempt_def [where r = "(inst, \<lparr>w_sm = sm, w_user = u, w_clock = c, w_uuid_src = src, w_uuid_next = n, w_slept = sl\<rparr>)"]
  completeStep_def [where r = "(inst, \<lparr>w_sm = sm, w_user = u, w_clock = c, w_uuid_src = src, w_uuid_next = n, w_slept = sl\<rparr>)"]
  failStep_def [where r = "(inst, \<lparr>w_sm = sm, w_user = u, w_clock = c, w_uuid_src = src, w_uuid_next = n, w_slept = sl\<rparr>)"]
  executeStep_def [where r = "(inst, \<lparr>w_sm = sm, w_user = u, w_clock = c, w_uuid_src = src, w_uuid_next = n, w_slept = sl\<rparr>)"]
  runWave_def [where r = "(inst, \<lparr>w_sm = sm, w_user = u, w_clock = c, w_uuid_src = src, w_uuid_next = n, w_slept = sl\<rparr>)"]
  executeSteps_def [where r = "(inst, \<lparr>w_sm = sm, w_user = u, w_clock = c, w_uuid_src = src, w_uuid_next = n, w_slept = sl\<rparr>)"]
  executeWorkflow_def [where r = "(inst, \<lparr>w_sm = sm, w_user = u, w_clock = c, w_uuid_src = src, w_uuid_next = n, w_slept = sl\<rparr>)"]
  attemptLoop.simps(2) [where r = "(inst, \<lparr>w_sm = sm, w_user = u, w_clock = c, w_uuid_src = src, w_uuid_next = n, w_slept = sl\<rparr>)"]
  attemptLoop.simps(2) [where n = "pred_numeral k" and r = "(inst, \<lparr>w_sm = sm, w_user = u, w_clock = c, w_uuid_src = src, w_uuid_next = n, w_slept = sl\<rparr>)", folded numeral_eq_Suc]
  runSyncSteps.simps(2) [where r = "(inst, \<lparr>w_sm = sm, w_user = u, w_clock = c, w_uuid_src = src, w_uuid_next = n, w_slept = sl\<rparr>)"]
  runAsyncSteps.simps(2) [where r = "(inst, \<lparr>w_sm = sm, w_user = u, w_clock = c, w_uuid_src = src, w_uuid_next = n, w_slept = sl\<rparr>)"]
  createStepInstances.simps(2) [where r = "(inst, \<lparr>w_sm = sm, w_user = u, w_clock = c, w_uuid_src = src, w_uuid_next = n, w_slept = sl\<rparr>)"]
  executeSteps_loop.simps [where r = "(inst, \<lparr>w_sm = sm, w_user = u, w_clock = c, w_uuid_src = src, w_uuid_next = n, w_slept = sl\<rparr>)"]
  for sm u c src n sl inst k

lemmas eval_pure =
  attemptLoop.simps(1) runSyncSteps.simps(1) runAsyncSteps.simps(1) createStepInstances.simps(1)
  findReadySteps_def graphDeps_def buildDependencyGraph_def buildStepInstMap_def
  prepareStepInput_def mergeStepOutput_def updStep_def orch_GetWorkflow_def getBusinessID_def
  calculateRetryInterval_def itoa_def digits.simps si_IsCompleted_def wi_IsCompleted_def
  deepCopyWorkflow_def deepCopyStep_def deepCopyEvent_def NewInMemoryStateManager_def
  init_world_def uuid_seq_def NewStep_def NewWorkflow_def Let_def

lemmas eval_recs =
  attemptLoop.simps runSyncSteps.simps runAsyncSteps.simps createStepInstances.simps

lemmas eval_congs =
  let_weak_cong if_weak_cong prod.case_cong_weak option.case_cong_weak sum.case_cong_weak
  list.case_cong_weak

lemma sortByPriority_single [simp]: "sortByPriority tb [s] = [s]"
  by (simp add: sortByPriority_def)

lemma sortByPriority_Nil [simp]: "sortByPriority tb [] = []"
  by (simp add: sortByPriority_def)

section \<open>What a run leaves untouched\<close>

subsection \<open>The stored workflow instances\<close>

text \<open>
  Steps and events are kept apart from the workflow instances: no operation on a step or
  an event, and hence no step execution, changes a stored workflow instance.
\<close>

lemma workflows_time_Now [simp]:
  "sm_workflows (w_sm (snd (time_Now w))) = sm_workflows (w_sm w)"
  by (simp add: time_Now_def)

lemma workflows_uuid_New [simp]:
  "sm_workflows (w_sm (snd (uuid_New w))) = sm_workflows (w_sm w)"
  by (simp add: uuid_New_def)

lemma workflows_time_Sleep [simp]:
  "sm_workflows (w_sm (time_Sleep d w)) = sm_workflows (w_sm w)"
  by (simp add: time_Sleep_def)

lemma workflows_user_update [simp]:
  "sm_workflows (w_sm (w\<lparr>w_user := u\<rparr>)) = sm_workflows (w_sm w)"
  by simp

lemma workflows_SaveStep [simp]:
  "sm_workflows (w_sm (snd (SaveStep step w))) = sm_workflows (w_sm w)"
  by (simp add: SaveStep_def)

lemma workflows_UpdateStepStatus [simp]:
  "sm_workflows (w_sm (snd (UpdateStepStatus stepInstID status w))) = sm_workflows (w_sm w)"
  by (simp add: UpdateStepStatus_def time_Now_def Let_def split: option.splits)

lemma workflows_UpdateStepOutput [simp]:
  "sm_workflows (w_sm (snd (UpdateStepOutput stepInstID output w))) = sm_workflows (w_sm w)"
  by (simp add: UpdateStepOutput_def split: option.splits)

lemma workflows_UpdateStepError [simp]:
  "sm_workflows (w_sm (snd (UpdateStepError stepInstID err w))) = sm_workflows (w_sm w)"
  by (simp add: UpdateStepError_def time_Now_def Let_def split: option.splits)

lemma workflows_SaveEvent [simp]:
  "sm_workflows (w_sm (snd (SaveEvent event w))) = sm_workflows (w_sm w)"
  by (simp add: SaveEvent_def)

lemma workflows_emitEvent [simp]:
  "sm_workflows (w_sm (emitEvent workflowInstID stepInstID eventType data w))
   = sm_workflows (w_sm w)"
  by (simp add: emitEvent_def Let_def split_beta)

lemma workflows_beginAttempt [simp]:
  "sm_workflows (w_sm (snd (beginAttempt stepDef idx retryPolicy attempt r)))
   = sm_workflows (w_sm (snd r))"
  by (simp add: beginAttempt_def Let_def split_beta)

lemma workflows_completeStep [simp]:
  "sm_workflows (w_sm (snd (completeStep stepDef idx output durationMs r)))
   = sm_workflows (w_sm (snd r))"
  by (simp add: completeStep_def Let_def split_beta)

lemma workflows_failStep:
  "failStep stepDef idx retryPolicy lastErr r = Inr (e, r') \<Longrightarrow>
     sm_workflows (w_sm (snd r')) = sm_workflows (w_sm (snd r))"
  by (auto simp: failStep_def Let_def split_beta split: option.splits)

lemma workflows_attemptLoop:
  "attemptLoop stepDef idx input retryPolicy n attempt lastErr r = Inr (res, r') \<Longrightarrow>
     sm_workflows (w_sm (snd r')) = sm_workflows (w_sm (snd r))"
proof (induction n arbitrary: attempt lastErr r)
  case 0
  then show ?case by simp
next
  case (Suc n)
  from Suc.prems show ?case
    by (auto simp: Let_def split_beta split: option.splits sum.splits dest!: Suc.IH)
qed

lemma workflows_executeStep:
  "executeStep stepDef idx stepInstMap r = Inr (e, r') \<Longrightarrow>
     sm_workflows (w_sm (snd r')) = sm_workflows (w_sm (snd r))"
  by (auto simp: executeStep_def Let_def split_beta
      split: if_splits sum.splits attempt_result.splits
      dest!: workflows_attemptLoop workflows_failStep)


lemma workflows_runSyncSteps:
  "runSyncSteps stepInstMap stepDefs executed r = Inr (e, executed', r') \<Longrightarrow>
     sm_workflows (w_sm (snd r')) = sm_workflows (w_sm (snd r))"
proof (induction stepDefs arbitrary: executed r)
  case Nil
  then show ?case by simp
next
  case (Cons stepDef rest)
  from Cons.prems show ?case
    by (auto simp: Let_def split: option.splits if_splits sum.splits prod.splits
        dest!: Cons.IH workflows_executeStep)
qed

lemma workflows_runAsyncSteps:
  "runAsyncSteps stepInstMap stepDefs errors executed r = Inr (errors', executed', r') \<Longrightarrow>
     sm_workflows (w_sm (snd r')) = sm_workflows (w_sm (snd r))"
proof (induction stepDefs arbitrary: errors executed r)
  case Nil
  then show ?case by simp
next
  case (Cons stepDef rest)
  from Cons.prems show ?case
    by (auto simp: Let_def split: option.splits if_splits sum.splits prod.splits
        dest!: Cons.IH workflows_executeStep)
qed

lemma workflows_runWave:
  "runWave tb stepInstMap readySteps executed r = Inr (e, executed', r') \<Longrightarrow>
     sm_workflows (w_sm (snd r')) = sm_workflows (w_sm (snd r))"
  unfolding runWave_def Let_def
  by (auto split: sum.splits prod.splits option.splits if_splits list.splits
      dest!: workflows_runSyncSteps workflows_runAsyncSteps)

text \<open>
  An invariant rule for the scheduling loop: what holds before the loop and is kept by
  every wave that ends without error holds at the end, and an error of the loop is the
  error of a wave that started in such a state.
\<close>

lemma executeSteps_loop_rule:
  assumes run: "executeSteps_loop tb workflow graph stepInstMap executed r = Inr (e, r')"
    and init: "I r"
    and keep: "\<And>executed r executed1 r1.
        I r \<Longrightarrow>
        runWave tb stepInstMap (findReadySteps workflow executed graph) executed r
          = Inr (None, executed1, r1) \<Longrightarrow> I r1"
    and fail: "\<And>executed r err executed1 r1.
        I r \<Longrightarrow>
        runWave tb stepInstMap (findReadySteps workflow executed graph) executed r
          = Inr (Some err, executed1, r1) \<Longrightarrow> Q err r1"
  shows "case e of None \<Rightarrow> I r' | Some err \<Rightarrow> Q err r'"
  using run init keep fail
proof (induction tb workflow graph stepInstMap executed r rule: executeSteps_loop.induct)
  case (1 tb workflow graph stepInstMap executed r)
  note run = "1.prems"(1) and inv = "1.prems"(2)
    and keep = "1.prems"(3) and fail = "1.prems"(4)
  let ?ready = "findReadySteps workflow executed graph"
  show ?case
  proof (cases "length ?ready = 0")
    case True
    with run have "e = None" "r' = r"
      by (simp_all add: executeSteps_loop.simps)
    with inv show ?thesis by simp
  next
    case ready: False
    show ?thesis
    proof (cases "runWave tb stepInstMap ?ready executed r")
      case (Inl f)
      with run ready show ?thesis
        by (simp add: executeSteps_loop.simps)
    next
      case (Inr res)
      obtain x executed1 r1 where res: "res = (x, executed1, r1)"
        by (cases res) auto
      show ?thesis
      proof (cases x)
        case (Some err)
        with run ready Inr res have "e = Some err" "r' = r1"
          by (simp_all add: executeSteps_loop.simps)
        moreover from Inr res Some
        have "runWave tb stepInstMap ?ready executed r = Inr (Some err, executed1, r1)"
          by simp
        from fail [OF inv this] have "Q err r1" .
        ultimately show ?thesis by simp
      next
        case None
        from Inr res None
        have "runWave tb stepInstMap ?ready executed r = Inr (None, executed1, r1)"
          by simp
        from keep [OF inv this] have inv1: "I r1" .
        show ?thesis
        proof (cases "length executed1 = length (wd_Steps workflow)")
          case True
          with run ready Inr res None have "e = None" "r' = r1"
            by (simp_all add: executeSteps_loop.simps)
          with inv1 show ?thesis by simp
        next
          case False
          with run ready Inr res None
          have "executeSteps_loop tb workflow graph stepInstMap executed1 r1 = Inr (e, r')"
            by (simp add: executeSteps_loop.simps)
          note rec = this
          show ?thesis
            by (rule "1.IH" [OF refl ready Inr res [symmetric] None refl False rec inv1 keep fail])
        qed
      qed
    qed
  qed
qed

lemma workflows_executeSteps_loop:
  assumes "executeSteps_loop tb workflow graph stepInstMap executed r = Inr (e, r')"
  shows "sm_workflows (w_sm (snd r')) = sm_workflows (w_sm (snd r))"
proof -
  let ?I = "\<lambda>r1 :: 'a run. sm_workflows (w_sm (snd r1)) = sm_workflows (w_sm (snd r))"
  have "case e of None \<Rightarrow> ?I r' | Some err \<Rightarrow> (\<lambda>_. ?I) err r'"
    using assms
  proof (rule executeSteps_loop_rule)
    show "?I r" by simp
  qed (auto dest: workflows_runWave)
  thus ?thesis by (cases e) simp_all
qed

lemma workflows_executeSteps:
  "executeSteps tb workflow graph r = Inr (e, r') \<Longrightarrow>
     sm_workflows (w_sm (snd r')) = sm_workflows (w_sm (snd r))"
  unfolding executeSteps_def by (rule workflows_executeSteps_loop)

lemma workflows_createStepInstances:
  "sm_workflows (w_sm (snd (snd (createStepInstances stepDefs i r))))
   = sm_workflows (w_sm (snd r))"
  by (induction stepDefs arbitrary: i r)
     (simp_all add: Let_def split_beta SaveStep_def uuid_New_def)

subsection \<open>The state of the executors\<close>

text \<open>
  The state that the executors share (the variables they capture) is changed by the
  executors alone: no operation of the store, the clock or the event log touches it.
\<close>

lemma user_time_Now [simp]: "w_user (snd (time_Now w)) = w_user w"
  by (simp add: time_Now_def)

lemma user_uuid_New [simp]: "w_user (snd (uuid_New w)) = w_user w"
  by (simp add: uuid_New_def)

lemma user_time_Sleep [simp]: "w_user (time_Sleep d w) = w_user w"
  by (simp add: time_Sleep_def)

lemma user_SaveWorkflow [simp]: "w_user (snd (SaveWorkflow workflow w)) = w_user w"
  by (simp add: SaveWorkflow_def)

lemma user_UpdateWorkflowStatus [simp]:
  "w_user (snd (UpdateWorkflowStatus workflowInstID status w)) = w_user w"
  by (simp add: UpdateWorkflowStatus_def time_Now_def Let_def split: option.splits)

lemma user_UpdateWorkflowError [simp]:
  "w_user (snd (UpdateWorkflowError workflowInstID err w)) = w_user w"
  by (simp add: UpdateWorkflowError_def time_Now_def Let_def split: option.splits)

lemma user_SaveStep [simp]: "w_user (snd (SaveStep step w)) = w_user w"
  by (simp add: SaveStep_def)

lemma user_UpdateStepStatus [simp]:
  "w_user (snd (UpdateStepStatus stepInstID status w)) = w_user w"
  by (simp add: UpdateStepStatus_def time_Now_def Let_def split: option.splits)

lemma user_UpdateStepOutput [simp]:
  "w_user (snd (UpdateStepOutput stepInstID output w)) = w_user w"
  by (simp add: UpdateStepOutput_def split: option.splits)

lemma user_UpdateStepError [simp]:
  "w_user (snd (UpdateStepError stepInstID err w)) = w_user w"
  by (simp add: UpdateStepError_def time_Now_def Let_def split: option.splits)

lemma user_SaveEvent [simp]: "w_user (snd (SaveEvent event w)) = w_user w"
  by (simp add: SaveEvent_def)

lemma user_emitEvent [simp]:
  "w_user (emitEvent workflowInstID stepInstID eventType data w) = w_user w"
  by (simp add: emitEvent_def Let_def split_beta)

lemma user_getTraceID [simp]: "w_user (snd (getTraceID ctx metadata w)) = w_user w"
  by (simp add: getTraceID_def split: option.splits val.splits)

lemma user_getCorrelationID [simp]:
  "w_user (snd (getCorrelationID ctx metadata w)) = w_user w"
  by (simp add: getCorrelationID_def split: option.splits val.splits)

lemma user_beginAttempt [simp]:
  "w_user (snd (beginAttempt stepDef idx retryPolicy attempt r)) = w_user (snd r)"
  by (simp add: beginAttempt_def Let_def split_beta)

lemma user_completeStep [simp]:
  "w_user (snd (completeStep stepDef idx output durationMs r)) = w_user (snd r)"
  by (simp add: completeStep_def Let_def split_beta)

lemma user_createStepInstances [simp]:
  "w_user (snd (snd (createStepInstances stepDefs i r))) = w_user (snd r)"
  by (induction stepDefs arbitrary: i r)
     (simp_all add: Let_def split_beta SaveStep_def uuid_New_def)

subsection \<open>The step instances of the in-flight instance\<close>

text \<open>
  A write through the pointer to a step instance changes that step instance only, and
  none of the writes of a step execution changes the identifier of the instance or the
  number of its step instances.
\<close>

lemma length_updStep [simp]: "length (wi_Steps (updStep idx f inst)) = length (wi_Steps inst)"
  by (simp add: updStep_def)

lemma nth_updStep_other [simp]:
  "j \<noteq> idx \<Longrightarrow> wi_Steps (updStep idx f inst) ! j = wi_Steps inst ! j"
  by (simp add: updStep_def)

lemma nth_updStep_same:
  "idx < length (wi_Steps inst) \<Longrightarrow> wi_Steps (updStep idx f inst) ! idx = f (wi_Steps inst ! idx)"
  by (simp add: updStep_def)

lemma wi_ID_updStep [simp]: "wi_ID (updStep idx f inst) = wi_ID inst"
  by (simp add: updStep_def)

lemma steps_mergeStepOutput [simp]:
  "wi_Steps (mergeStepOutput stepID output inst) = wi_Steps inst"
  by (simp add: mergeStepOutput_def)

lemma wi_ID_mergeStepOutput [simp]: "wi_ID (mergeStepOutput stepID output inst) = wi_ID inst"
  by (simp add: mergeStepOutput_def)

lemma length_beginAttempt [simp]:
  "length (wi_Steps (fst (beginAttempt stepDef idx retryPolicy attempt r)))
   = length (wi_Steps (fst r))"
  by (simp add: beginAttempt_def Let_def split_beta)

lemma nth_beginAttempt_other [simp]:
  "j \<noteq> idx \<Longrightarrow>
     wi_Steps (fst (beginAttempt stepDef idx retryPolicy attempt r)) ! j = wi_Steps (fst r) ! j"
  by (simp add: beginAttempt_def Let_def split_beta)

lemma wi_ID_beginAttempt [simp]:
  "wi_ID (fst (beginAttempt stepDef idx retryPolicy attempt r)) = wi_ID (fst r)"
  by (simp add: beginAttempt_def Let_def split_beta)

lemma length_completeStep [simp]:
  "length (wi_Steps (fst (completeStep stepDef idx output durationMs r)))
   = length (wi_Steps (fst r))"
  by (simp add: completeStep_def Let_def split_beta)

lemma nth_completeStep_other [simp]:
  "j \<noteq> idx \<Longrightarrow>
     wi_Steps (fst (completeStep stepDef idx output durationMs r)) ! j = wi_Steps (fst r) ! j"
  by (simp add: completeStep_def Let_def split_beta)

lemma wi_ID_completeStep [simp]:
  "wi_ID (fst (completeStep stepDef idx output durationMs r)) = wi_ID (fst r)"
  by (simp add: completeStep_def Let_def split_beta)

text \<open>
  Only the step instance that is executed changes in \<^verbatim>\<open>executeStep\<close>.
\<close>

definition others_kept :: "nat \<Rightarrow> vmap WorkflowInstance \<Rightarrow> vmap WorkflowInstance \<Rightarrow> bool" where
  "others_kept idx a b \<longleftrightarrow>
     wi_ID b = wi_ID a \<and> length (wi_Steps b) = length (wi_Steps a)
     \<and> (\<forall>j. j \<noteq> idx \<longrightarrow> wi_Steps b ! j = wi_Steps a ! j)"

lemma others_kept_refl [simp]: "others_kept idx a a"
  by (simp add: others_kept_def)


lemma others_kept_updStep [simp]: "others_kept idx a (updStep idx f a)"
  by (simp add: others_kept_def)

lemma others_kept_beginAttempt [simp]:
  "others_kept idx (fst r) (fst (beginAttempt stepDef idx retryPolicy attempt r))"
  by (simp add: others_kept_def)

lemma others_kept_completeStep [simp]:
  "others_kept idx (fst r) (fst (completeStep stepDef idx output durationMs r))"
  by (simp add: others_kept_def)




section \<open>Definition validation\<close>

lemma firstInvalidDep_None_iff:
  "firstInvalidDep stepIDs deps = None \<longleftrightarrow> set deps \<subseteq> set stepIDs"
  by (induction deps) auto

lemma validateDependencies_None_iff:
  "validateDependencies stepIDs stepDefs = None
   \<longleftrightarrow> (\<forall>s \<in> set stepDefs. set (sd_Dependencies s) \<subseteq> set stepIDs)"
  by (induction stepDefs) (auto simp flip: firstInvalidDep_None_iff split: option.splits)

lemma Build_error_iff:
  "(\<exists>e. Build workflow = Inl e) \<longleftrightarrow>
     wd_ID workflow = [] \<or> wd_Name workflow = [] \<or> wd_Steps workflow = []
     \<or> (\<exists>s \<in> set (wd_Steps workflow). \<exists>d \<in> set (sd_Dependencies s).
            d \<notin> sd_ID ` set (wd_Steps workflow))"
proof -
  have "validateDependencies (map sd_ID (wd_Steps workflow)) (wd_Steps workflow) \<noteq> None
        \<longleftrightarrow> (\<exists>s \<in> set (wd_Steps workflow). \<exists>d \<in> set (sd_Dependencies s).
               d \<notin> sd_ID ` set (wd_Steps workflow))"
    by (auto simp: validateDependencies_None_iff)
  then show ?thesis
    by (auto simp: Build_def split: option.splits)
qed

lemma Build_result: "Build workflow = Inr w' \<Longrightarrow> w' = workflow"
  by (auto simp: Build_def split: if_splits option.splits)

lemma RegisterWorkflow_error_iff:
  "fst (RegisterWorkflow workflows workflow) \<noteq> None
   \<longleftrightarrow> (case workflow of None \<Rightarrow> True | Some wdef \<Rightarrow> wd_ID wdef = [])"
  by (simp add: RegisterWorkflow_def split: option.splits)

lemma cyclic_workflow_cyclic: "cyclic cyclic_workflow"
proof -
  have ab: "(''A'', ''B'') \<in> depends_on cyclic_workflow"
    by (simp add: depends_on_def cyclic_workflow_def NewWorkflow_def NewStep_def)
  have ba: "(''B'', ''A'') \<in> depends_on cyclic_workflow"
    by (simp add: depends_on_def cyclic_workflow_def NewWorkflow_def NewStep_def)
  from ab ba have "(''A'', ''A'') \<in> (depends_on cyclic_workflow)\<^sup>+"
    by (rule trancl_into_trancl [OF r_into_trancl])
  then show ?thesis unfolding cyclic_def by blast
qed

text \<open>
  C5 as stated: building or registering a definition whose dependency graph is cyclic
  returns an error. The definition with steps \<open>A\<close> and \<open>B\<close> that depend on each other
  is cyclic; \<open>Build\<close> returns it and \<open>RegisterWorkflow\<close> stores it.
\<close>

theorem cyclic_definition_accepted_counterexample:
  "cyclic cyclic_workflow
   \<and> Build cyclic_workflow = Inr cyclic_workflow
   \<and> RegisterWorkflow Map.empty (Some cyclic_workflow)
       = (None, [''W'' \<mapsto> cyclic_workflow])"
proof -
  have "Build cyclic_workflow = Inr cyclic_workflow"
    by (simp add: Build_def cyclic_workflow_def NewWorkflow_def NewStep_def)
  moreover have "RegisterWorkflow Map.empty (Some cyclic_workflow)
                 = (None, [''W'' \<mapsto> cyclic_workflow])"
    by (simp add: RegisterWorkflow_def cyclic_workflow_def NewWorkflow_def)
  ultimately show ?thesis using cyclic_workflow_cyclic by simp
qed

text \<open>
  C5 (amended): \<open>Build\<close> fails exactly when the identifier is empty, the name is empty,
  there are no steps, or some dependency names no step of the workflow, and otherwise
  returns the definition as it is; cycles are not looked for. \<open>RegisterWorkflow\<close> fails
  exactly when the definition is nil or its identifier is empty, and otherwise stores the
  definition under its identifier.
\<close>

theorem Build_RegisterWorkflow_checks:
  "((\<exists>e. Build workflow = Inl e) \<longleftrightarrow>
       wd_ID workflow = [] \<or> wd_Name workflow = [] \<or> wd_Steps workflow = []
       \<or> (\<exists>s \<in> set (wd_Steps workflow). \<exists>d \<in> set (sd_Dependencies s).
              d \<notin> sd_ID ` set (wd_Steps workflow)))
   \<and> ((\<exists>e. Build workflow = Inl e) \<or> Build workflow = Inr workflow)
   \<and> (fst (RegisterWorkflow workflows registered) \<noteq> None
        \<longleftrightarrow> (case registered of None \<Rightarrow> True | Some wdef \<Rightarrow> wd_ID wdef = []))
   \<and> (case registered of
         None \<Rightarrow> snd (RegisterWorkflow workflows registered) = workflows
       | Some wdef \<Rightarrow>
           snd (RegisterWorkflow workflows registered)
           = (if wd_ID wdef = [] then workflows else workflows(wd_ID wdef \<mapsto> wdef)))"
proof -
  have "(\<exists>e. Build workflow = Inl e) \<or> Build workflow = Inr workflow"
    using Build_result [of workflow] by (cases "Build workflow") auto
  moreover have "case registered of
         None \<Rightarrow> snd (RegisterWorkflow workflows registered) = workflows
       | Some wdef \<Rightarrow>
           snd (RegisterWorkflow workflows registered)
           = (if wd_ID wdef = [] then workflows else workflows(wd_ID wdef \<mapsto> wdef))"
    by (simp add: RegisterWorkflow_def split: option.splits)
  ultimately show ?thesis
    using Build_error_iff [of workflow] RegisterWorkflow_error_iff [of workflows registered]
    by blast
qed

theorem Build_RegisterWorkflow_checks_witness:
  "(\<exists>e. Build dangling_workflow = Inl e)
   \<and> Build cyclic_workflow = Inr cyclic_workflow
   \<and> fst (RegisterWorkflow Map.empty (Some cyclic_workflow)) = None
   \<and> snd (RegisterWorkflow Map.empty (Some cyclic_workflow)) = [''W'' \<mapsto> cyclic_workflow]"
proof -
  have d: "\<exists>s \<in> set (wd_Steps dangling_workflow). \<exists>d \<in> set (sd_Dependencies s).
             d \<notin> sd_ID ` set (wd_Steps dangling_workflow)"
    by (simp add: dangling_workflow_def NewWorkflow_def NewStep_def)
  have c: "\<not> (wd_ID cyclic_workflow = [] \<or> wd_Name cyclic_workflow = []
              \<or> wd_Steps cyclic_workflow = []
              \<or> (\<exists>s \<in> set (wd_Steps cyclic_workflow). \<exists>d \<in> set (sd_Dependencies s).
                     d \<notin> sd_ID ` set (wd_Steps cyclic_workflow)))"
    by (simp add: cyclic_workflow_def NewWorkflow_def NewStep_def)
  have i: "wd_ID cyclic_workflow = ''W''"
    by (simp add: cyclic_workflow_def NewWorkflow_def)
  show ?thesis
    using Build_RegisterWorkflow_checks [of dangling_workflow Map.empty "Some cyclic_workflow"]
      Build_RegisterWorkflow_checks [of cyclic_workflow Map.empty "Some cyclic_workflow"]
      d c i
    by auto
qed

section \<open>Step input\<close>





section \<open>Retry interval\<close>

subsection \<open>Rounding to the nearest float64\<close>

lemma rne_of_int [simp]: "rne (of_int n) = n"
  by (simp add: rne_def)

lemma rne_0 [simp]: "rne 0 = 0"
  using rne_of_int [of 0] by simp

lemma rne_floor: "\<lfloor>x\<rfloor> \<le> rne x"
  by (simp add: rne_def)

lemma rne_floor1: "rne x \<le> \<lfloor>x\<rfloor> + 1"
  by (simp add: rne_def)

lemma rne_mono: assumes "x \<le> y" shows "rne x \<le> rne y"
proof (cases "\<lfloor>x\<rfloor> = \<lfloor>y\<rfloor>")
  case True
  with assms show ?thesis by (auto simp: rne_def)
next
  case False
  with assms have "\<lfloor>x\<rfloor> < \<lfloor>y\<rfloor>" by (simp add: floor_mono order.strict_iff_order)
  with rne_floor1 [of x] rne_floor [of y] show ?thesis by linarith
qed

lemma rne_ge: "of_int a \<le> x \<Longrightarrow> a \<le> rne x"
  using rne_mono [of "of_int a" x] by simp

lemma rne_le: "x \<le> of_int a \<Longrightarrow> rne x \<le> a"
  using rne_mono [of x "of_int a"] by simp

lemma pow2_pos [simp]: "0 < pow2 k"
  by (simp add: pow2_def)

lemma pow2_nonneg [simp]: "0 \<le> pow2 k"
  by (simp add: pow2_def)

lemma pow2_neq0 [simp]: "pow2 k \<noteq> 0"
  by (simp add: pow2_def)

lemma pow2_0 [simp]: "pow2 0 = 1"
  by (simp add: pow2_def)

lemma pow2_add: "pow2 (a + b) = pow2 a * pow2 b"
  by (simp add: pow2_def powr_add)

lemma pow2_diff: "pow2 (a - b) = pow2 a / pow2 b"
  by (simp add: pow2_def powr_diff)

lemma pow2_mono: "a \<le> b \<Longrightarrow> pow2 a \<le> pow2 b"
  by (simp add: pow2_def)

lemma pow2_nat: "0 \<le> k \<Longrightarrow> pow2 k = of_int (2 ^ nat k)"
  by (simp add: pow2_def powr_real_of_int)

lemma binade:
  assumes "0 < x"
  shows "pow2 \<lfloor>log 2 x\<rfloor> \<le> x" "x < pow2 (\<lfloor>log 2 x\<rfloor> + 1)"
  using floor_log_eq_powr_iff [of x 2 "\<lfloor>log 2 x\<rfloor>"] assms
  by (simp_all add: pow2_def)

lemma floor_log2_eq:
  assumes "pow2 k \<le> x" "x < pow2 (k + 1)"
  shows "\<lfloor>log 2 x\<rfloor> = k"
proof -
  have "0 < x" using assms(1) pow2_pos [of k] by linarith
  from floor_log_eq_powr_iff [OF this, of 2 k] assms show ?thesis
    by (simp add: pow2_def)
qed

lemma floor_log2_mono: "0 < x \<Longrightarrow> x \<le> y \<Longrightarrow> \<lfloor>log 2 x\<rfloor> \<le> \<lfloor>log 2 y\<rfloor>"
  by (intro floor_mono) simp

lemma round_pos_nonneg: "0 < x \<Longrightarrow> 0 \<le> round_pos x"
  unfolding round_pos_def Let_def
  by (intro mult_nonneg_nonneg) (auto intro!: rne_ge simp: less_imp_le)

lemma round_pos_upper:
  assumes "0 < x"
  shows "round_pos x \<le> pow2 (max \<lfloor>log 2 x\<rfloor> (- 1022) + 1)"
proof -
  let ?k = "\<lfloor>log 2 x\<rfloor>"
  let ?M = "max ?k (- 1022)"
  let ?e = "?M - 52"
  have "x < pow2 (?k + 1)" using binade [OF assms] by simp
  also have "\<dots> \<le> pow2 (?M + 1)" by (intro pow2_mono) simp
  finally have "x \<le> pow2 (?M + 1)" by simp
  then have "x / pow2 ?e \<le> pow2 (?M + 1) / pow2 ?e"
    by (rule divide_right_mono) simp
  also have "\<dots> = pow2 53" by (simp flip: pow2_diff)
  also have "\<dots> = of_int (2 ^ 53)" by (simp add: pow2_nat)
  finally have "rne (x / pow2 ?e) \<le> 2 ^ 53" by (rule rne_le)
  then have "of_int (rne (x / pow2 ?e)) * pow2 ?e \<le> of_int (2 ^ 53) * pow2 ?e"
    by (intro mult_right_mono) (simp_all add: less_imp_le)
  also have "of_int (2 ^ 53) * pow2 ?e = pow2 53 * pow2 ?e" by (simp add: pow2_nat)
  also have "\<dots> = pow2 (53 + ?e)" by (simp only: pow2_add)
  also have "53 + ?e = ?M + 1" by simp
  finally show ?thesis by (simp add: round_pos_def Let_def)
qed

lemma round_pos_lower:
  assumes "0 < x" "- 1022 \<le> \<lfloor>log 2 x\<rfloor>"
  shows "pow2 \<lfloor>log 2 x\<rfloor> \<le> round_pos x"
proof -
  let ?k = "\<lfloor>log 2 x\<rfloor>"
  let ?e = "?k - 52"
  from assms(2) have e: "max ?k (- 1022) - 52 = ?e" by simp
  have "pow2 ?k / pow2 ?e \<le> x / pow2 ?e"
    using binade(1) [OF assms(1)] by (rule divide_right_mono) simp
  moreover have "pow2 ?k / pow2 ?e = of_int (2 ^ 52)"
    by (simp flip: pow2_diff add: pow2_nat)
  ultimately have "2 ^ 52 \<le> rne (x / pow2 ?e)" by (intro rne_ge) simp
  then have "of_int (2 ^ 52) * pow2 ?e \<le> of_int (rne (x / pow2 ?e)) * pow2 ?e"
    by (intro mult_right_mono) (simp_all add: less_imp_le)
  moreover have "of_int (2 ^ 52) * pow2 ?e = pow2 52 * pow2 ?e"
    by (simp add: pow2_nat)
  moreover have "pow2 52 * pow2 ?e = pow2 (52 + ?e)" by (simp only: pow2_add)
  moreover have "52 + ?e = ?k" by simp
  ultimately have "pow2 ?k \<le> of_int (rne (x / pow2 ?e)) * pow2 ?e" by (simp only:)
  then show ?thesis unfolding round_pos_def Let_def e .
qed

lemma round_pos_mono:
  assumes "0 < x" "x \<le> y"
  shows "round_pos x \<le> round_pos y"
proof -
  let ?kx = "\<lfloor>log 2 x\<rfloor>" and ?ky = "\<lfloor>log 2 y\<rfloor>"
  let ?Mx = "max ?kx (- 1022)" and ?My = "max ?ky (- 1022)"
  from assms have y: "0 < y" by simp
  have k: "?kx \<le> ?ky" using assms by (rule floor_log2_mono)
  show ?thesis
  proof (cases "?Mx = ?My")
    case True
    have "x / pow2 (?My - 52) \<le> y / pow2 (?My - 52)"
      using assms(2) by (rule divide_right_mono) simp
    then have "rne (x / pow2 (?My - 52)) \<le> rne (y / pow2 (?My - 52))" by (rule rne_mono)
    then have "of_int (rne (x / pow2 (?My - 52))) * pow2 (?My - 52)
        \<le> of_int (rne (y / pow2 (?My - 52))) * pow2 (?My - 52)"
      by (intro mult_right_mono) (simp_all add: less_imp_le)
    with True show ?thesis by (simp add: round_pos_def Let_def)
  next
    case False
    with k have lt: "?Mx + 1 \<le> ?ky" and ky: "- 1022 \<le> ?ky" by linarith+
    have "round_pos x \<le> pow2 (?Mx + 1)" using round_pos_upper [OF assms(1)] .
    also have "\<dots> \<le> pow2 ?ky" using lt by (rule pow2_mono)
    also have "\<dots> \<le> round_pos y" using round_pos_lower [OF y ky] .
    finally show ?thesis .
  qed
qed

lemma round_pos_exact:
  assumes m: "0 < m" "m < 2 ^ 53" and f: "- 1074 \<le> f"
  shows "round_pos (of_int m * pow2 f) = of_int m * pow2 f"
proof -
  let ?x = "of_int m * pow2 f"
  let ?k = "\<lfloor>log 2 ?x\<rfloor>"
  let ?e = "max ?k (- 1022) - 52"
  have x: "0 < ?x" using m by simp
  have "pow2 ?k \<le> ?x" using binade(1) [OF x] .
  also have "?x < of_int (2 ^ 53) * pow2 f"
    using m by (intro mult_strict_right_mono) simp_all
  also have "\<dots> = pow2 (53 + f)" by (simp add: pow2_add pow2_nat)
  finally have "?k < 53 + f" by (simp add: pow2_def)
  with f have e: "?e \<le> f" by simp
  have "?x / pow2 ?e = of_int m * pow2 (f - ?e)" by (simp add: pow2_diff)
  also have "\<dots> = of_int (m * 2 ^ nat (f - ?e))" using e by (simp add: pow2_nat)
  finally have eq: "?x / pow2 ?e = of_int (m * 2 ^ nat (f - ?e))" .
  have "rne (?x / pow2 ?e) = m * 2 ^ nat (f - ?e)" by (simp only: eq rne_of_int)
  then have "round_pos ?x = of_int (m * 2 ^ nat (f - ?e)) * pow2 ?e"
    by (simp add: round_pos_def Let_def)
  also have "\<dots> = of_int m * (pow2 (f - ?e) * pow2 ?e)" using e by (simp add: pow2_nat)
  also have "pow2 (f - ?e) * pow2 ?e = pow2 f" by (simp flip: pow2_add)
  finally show ?thesis .
qed

lemma round_pos_0 [simp]: "round_pos 0 = 0"
  by (simp add: round_pos_def)

lemma mantissa_bounds:
  assumes "0 < x"
  shows "0 \<le> rne (x / pow2 (max \<lfloor>log 2 x\<rfloor> (- 1022) - 52))"
    and "rne (x / pow2 (max \<lfloor>log 2 x\<rfloor> (- 1022) - 52)) \<le> 2 ^ 53"
proof -
  let ?k = "\<lfloor>log 2 x\<rfloor>"
  let ?M = "max ?k (- 1022)"
  let ?e = "?M - 52"
  show "0 \<le> rne (x / pow2 ?e)" using assms by (intro rne_ge) (simp add: less_imp_le)
  have "x < pow2 (?k + 1)" using binade [OF assms] by simp
  also have "\<dots> \<le> pow2 (?M + 1)" by (intro pow2_mono) simp
  finally have "x \<le> pow2 (?M + 1)" by simp
  then have "x / pow2 ?e \<le> pow2 (?M + 1) / pow2 ?e"
    by (rule divide_right_mono) simp
  also have "\<dots> = pow2 53" by (simp flip: pow2_diff)
  also have "\<dots> = of_int (2 ^ 53)" by (simp add: pow2_nat)
  finally show "rne (x / pow2 ?e) \<le> 2 ^ 53" by (rule rne_le)
qed

lemma round_pos_idem:
  assumes "0 < x"
  shows "round_pos (round_pos x) = round_pos x"
proof -
  let ?e = "max \<lfloor>log 2 x\<rfloor> (- 1022) - 52"
  let ?n = "rne (x / pow2 ?e)"
  have y: "round_pos x = of_int ?n * pow2 ?e" by (simp add: round_pos_def Let_def)
  have e: "- 1074 \<le> ?e" by simp
  from mantissa_bounds [OF assms] have n: "0 \<le> ?n" "?n \<le> 2 ^ 53" .
  consider "?n = 0" | "0 < ?n" "?n < 2 ^ 53" | "?n = 2 ^ 53" using n by linarith
  then show ?thesis
  proof cases
    case 1
    with y show ?thesis by simp
  next
    case 2
    from round_pos_exact [OF 2 e] y show ?thesis by (simp only:)
  next
    case 3
    have "of_int ?n * pow2 ?e = of_int (2 ^ 52) * (pow2 1 * pow2 ?e)"
      unfolding 3 by (simp add: pow2_nat)
    also have "pow2 1 * pow2 ?e = pow2 (1 + ?e)" by (simp only: pow2_add)
    finally have "round_pos x = of_int (2 ^ 52) * pow2 (1 + ?e)" using y by (simp only:)
    moreover have "round_pos (of_int (2 ^ 52) * pow2 (1 + ?e)) = of_int (2 ^ 52) * pow2 (1 + ?e)"
      by (rule round_pos_exact) simp_all
    ultimately show ?thesis by (simp only:)
  qed
qed

lemma round64_pos:
  "0 < x \<Longrightarrow> round64 x = (if 2 ^ 1024 \<le> round_pos x then None else Some (round_pos x))"
  by (simp add: round64_def Let_def)

lemma round64_0 [simp]: "round64 0 = Some 0"
  by (simp add: round64_def)

lemma round64_nonneg:
  assumes "0 \<le> x" "round64 x = Some a"
  shows "0 \<le> a"
proof (cases "x = 0")
  case True
  with assms show ?thesis by simp
next
  case False
  with assms have x: "0 < x" by simp
  from assms(2) round_pos_nonneg [OF x] show ?thesis
    by (simp add: round64_pos [OF x] split: if_splits)
qed

lemma round64_mono:
  assumes "0 \<le> x" "x \<le> y" "round64 x = Some a" "round64 y = Some b"
  shows "a \<le> b"
proof (cases "x = 0")
  case True
  with assms round64_nonneg [of y b] show ?thesis by simp
next
  case False
  with assms have x: "0 < x" and y: "0 < y" by simp_all
  from assms(3,4) round_pos_mono [OF x assms(2)] show ?thesis
    by (simp add: round64_pos [OF x] round64_pos [OF y] split: if_splits)
qed

lemma round64_below:
  assumes "0 \<le> x" "x \<le> y" "round64 y = Some b"
  shows "\<exists>a. round64 x = Some a \<and> 0 \<le> a \<and> a \<le> b"
proof (cases "x = 0")
  case True
  with assms round64_nonneg [of y b] show ?thesis by simp
next
  case False
  with assms have x: "0 < x" and y: "0 < y" by simp_all
  from assms(3) round_pos_mono [OF x assms(2)] round_pos_nonneg [OF x] show ?thesis
    by (simp add: round64_pos [OF x] round64_pos [OF y] split: if_splits)
qed

lemma round64_idem:
  assumes "0 \<le> x" "round64 x = Some a"
  shows "round64 a = Some a"
proof (cases "x = 0")
  case True
  with assms show ?thesis by simp
next
  case False
  with assms have x: "0 < x" by simp
  with assms(2) have a: "a = round_pos x" "round_pos x < 2 ^ 1024"
    by (simp_all add: round64_pos split: if_splits)
  show ?thesis
  proof (cases "a = 0")
    case True
    then show ?thesis by simp
  next
    case False
    with a round_pos_nonneg [OF x] have "0 < a" by simp
    from round64_pos [OF this] a round_pos_idem [OF x] show ?thesis by simp
  qed
qed

lemma round64_exact:
  assumes "\<bar>m\<bar> < 2 ^ 53" "- 1074 \<le> f" "f \<le> 970"
  shows "round64 (of_int m * pow2 f) = Some (of_int m * pow2 f)"
proof (cases "m = 0")
  case True
  then show ?thesis by simp
next
  case False
  let ?x = "of_int m * pow2 f"
  from False have x0: "?x \<noteq> 0" by simp
  have abs: "\<bar>?x\<bar> = of_int \<bar>m\<bar> * pow2 f" by (simp add: abs_mult)
  from False assms have rp: "round_pos \<bar>?x\<bar> = of_int \<bar>m\<bar> * pow2 f"
    unfolding abs by (intro round_pos_exact) simp_all
  have "of_int \<bar>m\<bar> * pow2 f < of_int (2 ^ 53) * pow2 f"
    using assms(1) by (intro mult_strict_right_mono) simp_all
  also have "\<dots> = pow2 53 * pow2 f" by (simp add: pow2_nat)
  also have "\<dots> = pow2 (53 + f)" by (simp only: pow2_add)
  also have "\<dots> \<le> pow2 1024" using assms(3) by (intro pow2_mono) simp
  also have "\<dots> = 2 ^ 1024" by (simp add: pow2_nat)
  finally have small: "\<not> 2 ^ 1024 \<le> round_pos \<bar>?x\<bar>" using rp by simp
  have "sgn ?x * (of_int \<bar>m\<bar> * pow2 f) = ?x"
  proof (cases "0 < m")
    case True
    then show ?thesis by (simp add: sgn_mult)
  next
    case neg: False
    with False have "m < 0" by simp
    then show ?thesis by (simp add: sgn_mult)
  qed
  with x0 small rp show ?thesis by (simp add: round64_def Let_def)
qed

lemma round64_int: "\<bar>n\<bar> < 2 ^ 53 \<Longrightarrow> round64 (of_int n) = Some (of_int n)"
  using round64_exact [of n 0] by simp

subsection \<open>The loop of pow and the delay\<close>

lemma go_trunc_of_int [simp]: "go_trunc (real_of_int k) = k"
  by (simp add: go_trunc_def)

lemma pow_loop_fpow:
  "pow_loop b (fpow b (Suc i)) k = fpow b (Suc (i + k))"
proof (induction k arbitrary: i)
  case 0
  show ?case by simp
next
  case (Suc k)
  have "f64_mul (fpow b (Suc i)) b = fpow b (Suc (Suc i))" by simp
  with Suc [of "Suc i"] show ?case by simp
qed

lemma pow_fpow:
  assumes "0 \<le> j" "j < 2 ^ 53"
  shows "pow b (f64_of_int j) = fpow b (nat j)"
proof (cases "j = 0")
  case True
  then show ?thesis by (simp add: pow_def f64_of_int_def)
next
  case False
  with assms have ex: "f64_of_int j = Some (of_int j)"
    by (simp add: f64_of_int_def round64_int)
  from assms have "j < 2 ^ 63" by simp
  with assms(1) have n: "to_int64 (Some (of_int j)) = Some j"
    by (simp add: to_int64_def)
  from False assms have "nat j = Suc (0 + nat (j - 1))" by simp
  with pow_loop_fpow [of b 0 "nat (j - 1)"] False ex n show ?thesis
    by (simp add: pow_def)
qed

lemma power_int_bound:
  fixes m :: int
  assumes "\<bar>m ^ Suc j\<bar> < b" "1 < b"
  shows "\<bar>m ^ j\<bar> < b"
proof (cases "m = 0")
  case True
  with assms(2) show ?thesis by (cases j) simp_all
next
  case False
  then have "1 \<le> \<bar>m\<bar>" by simp
  then have "\<bar>m\<bar> ^ j * 1 \<le> \<bar>m\<bar> ^ j * \<bar>m\<bar>" by (intro mult_left_mono) simp_all
  with assms(1) show ?thesis by (simp add: power_abs abs_mult ac_simps)
qed

lemma fpow_int:
  assumes "\<bar>m ^ j\<bar> < 2 ^ 53"
  shows "fpow (Some (of_int m)) j = Some (of_int (m ^ j))"
  using assms
proof (induction j)
  case 0
  show ?case by simp
next
  case (Suc j)
  from power_int_bound [OF Suc.prems] have "\<bar>m ^ j\<bar> < 2 ^ 53" by simp
  from Suc.IH [OF this] have IH: "fpow (Some (of_int m)) j = Some (of_int (m ^ j))" .
  have "round64 (of_int (m ^ j) * of_int m) = Some (of_int (m ^ Suc j))"
    using round64_int [OF Suc.prems] by (simp add: mult.commute)
  with IH show ?case by (cases "j = 0") (simp_all add: f64_mul_def)
qed

lemma to_int64_int: "\<bar>n\<bar> < 2 ^ 53 \<Longrightarrow> to_int64 (Some (of_int n)) = Some n"
  by (simp add: to_int64_def abs_less_iff)

lemma calculateRetryInterval_exact:
  assumes att: "0 < attempt" "attempt \<le> 2 ^ 53"
    and init: "InitialInterval policy \<noteq> 0" "\<bar>InitialInterval policy\<bar> < 2 ^ 53"
    and mult: "Multiplier policy = Some (of_int m)" "\<bar>m\<bar> < 2 ^ 53"
    and small: "\<bar>InitialInterval policy * m ^ nat (attempt - 1)\<bar> < 2 ^ 53"
  shows "calculateRetryInterval policy attempt =
     Some (if 0 < MaxInterval policy
              \<and> MaxInterval policy < InitialInterval policy * m ^ nat (attempt - 1)
           then MaxInterval policy
           else InitialInterval policy * m ^ nat (attempt - 1))"
proof -
  let ?i = "InitialInterval policy"
  let ?j = "nat (attempt - 1)"
  from init(1) have "1 \<le> \<bar>?i\<bar>" by simp
  then have "1 * \<bar>m ^ ?j\<bar> \<le> \<bar>?i\<bar> * \<bar>m ^ ?j\<bar>" by (intro mult_right_mono) simp_all
  with small have pj: "\<bar>m ^ ?j\<bar> < 2 ^ 53" by (simp add: abs_mult)
  have base: "f64_const (Multiplier policy) = Some (of_int m)"
    using mult by (simp add: f64_const_def round64_int)
  from att have "pow (Some (of_int m)) (f64_of_int (attempt - 1)) = fpow (Some (of_int m)) ?j"
    by (intro pow_fpow) simp_all
  with fpow_int [OF pj] have p: "pow (Some (of_int m)) (f64_of_int (attempt - 1))
      = Some (of_int (m ^ ?j))"
    by simp
  have f: "f64_of_int ?i = Some (of_int ?i)"
    using init(2) by (simp add: f64_of_int_def round64_int)
  have "f64_mul (Some (of_int ?i)) (Some (of_int (m ^ ?j))) = Some (of_int (?i * m ^ ?j))"
    using round64_int [OF small] by (simp add: f64_mul_def)
  with base p f to_int64_int [OF small] init(1) show ?thesis
    by (simp add: calculateRetryInterval_def Let_def)
qed

lemma round64_1 [simp]: "round64 1 = Some 1"
  using round64_int [of 1] by simp

lemma fpow_unit:
  assumes b: "0 \<le> b" "b \<le> 1" "round64 b = Some b"
  shows "\<exists>p. fpow (Some b) j = Some p \<and> 0 \<le> p \<and> p \<le> 1 \<and> round64 p = Some p"
proof (induction j)
  case 0
  show ?case by simp
next
  case (Suc j)
  then obtain p where p: "fpow (Some b) j = Some p" "0 \<le> p" "p \<le> 1" "round64 p = Some p"
    by blast
  show ?case
  proof (cases "j = 0")
    case True
    with b show ?thesis by simp
  next
    case False
    have "0 \<le> p * b" "p * b \<le> 1" using p b by (simp_all add: mult_le_one)
    from round64_below [OF this round64_1] obtain q where
      q: "round64 (p * b) = Some q" "0 \<le> q" "q \<le> 1" by blast
    from round64_idem [OF \<open>0 \<le> p * b\<close> q(1)] q p(1) False show ?thesis
      by (simp add: f64_mul_def)
  qed
qed

lemma fpow_decreasing:
  assumes b: "0 \<le> b" "b \<le> 1" "round64 b = Some b"
  shows "\<exists>p q. fpow (Some b) j = Some p \<and> fpow (Some b) (Suc j) = Some q
               \<and> 0 \<le> q \<and> q \<le> p \<and> p \<le> 1"
proof -
  from fpow_unit [OF b, of j] obtain p where
    p: "fpow (Some b) j = Some p" "0 \<le> p" "p \<le> 1" "round64 p = Some p" by blast
  from fpow_unit [OF b, of "Suc j"] obtain q where
    q: "fpow (Some b) (Suc j) = Some q" "0 \<le> q" "q \<le> 1" by blast
  have "q \<le> p"
  proof (cases "j = 0")
    case True
    with p q b show ?thesis by simp
  next
    case False
    with p q have r: "round64 (p * b) = Some q" by (simp add: f64_mul_def)
    have "0 \<le> p * b" "p * b \<le> p" using p b by (simp_all add: mult_left_le)
    from round64_mono [OF this r p(4)] show ?thesis .
  qed
  with p q show ?thesis by blast
qed

lemma go_trunc_mono_nonneg: "0 \<le> x \<Longrightarrow> x \<le> y \<Longrightarrow> go_trunc x \<le> go_trunc y"
  by (simp add: go_trunc_def floor_mono)

lemma calculateRetryInterval_shrinking:
  assumes att: "0 < attempt" "attempt < 2 ^ 53"
    and init: "0 < InitialInterval policy" "InitialInterval policy \<le> 2 ^ 62"
    and mult: "Multiplier policy = Some m" "0 \<le> m" "m \<le> 1"
  shows "\<exists>d d'. calculateRetryInterval policy attempt = Some d
               \<and> calculateRetryInterval policy (attempt + 1) = Some d' \<and> 0 \<le> d' \<and> d' \<le> d"
proof -
  let ?i = "InitialInterval policy"
  let ?j = "nat (attempt - 1)"
  have big: "round64 (2 ^ 62) = Some (2 ^ 62)"
    using round64_exact [of 1 62] by (simp add: pow2_nat)
  from init(1) have i_nonneg: "0 \<le> real_of_int ?i" by simp
  from init(2) have "real_of_int ?i \<le> real_of_int (2 ^ 62)" by (simp only: of_int_le_iff)
  then have "real_of_int ?i \<le> 2 ^ 62" by simp
  from round64_below [OF i_nonneg this big] obtain F where
    F: "round64 (of_int ?i) = Some F" "0 \<le> F" "F \<le> 2 ^ 62" by blast
  from round64_below [OF mult(2,3) round64_1] obtain b where
    b: "round64 m = Some b" "0 \<le> b" "b \<le> 1" by blast
  from round64_idem [OF mult(2) b(1)] have bb: "round64 b = Some b" .
  from fpow_decreasing [OF b(2,3) bb, of ?j] obtain p q where
    pq: "fpow (Some b) ?j = Some p" "fpow (Some b) (Suc ?j) = Some q" "0 \<le> q" "q \<le> p"
      "p \<le> 1"
    by blast
  have base: "f64_const (Multiplier policy) = Some b"
    using mult(1) b(1) by (simp add: f64_const_def)
  from att have pw: "pow (Some b) (f64_of_int (attempt - 1)) = Some p"
    using pow_fpow [of "attempt - 1" "Some b"] pq(1) by simp
  from att have "nat (attempt + 1 - 1) = Suc ?j" by simp
  with att have pw': "pow (Some b) (f64_of_int (attempt + 1 - 1)) = Some q"
    using pow_fpow [of "attempt + 1 - 1" "Some b"] pq(2) by simp
  have Fp: "0 \<le> F * p" "F * p \<le> 2 ^ 62"
    using F pq by (simp_all add: mult_left_le mult_le_one order_trans [of "F * p" F])
  have Fq: "0 \<le> F * q" "F * q \<le> F * p"
    using F pq by (simp_all add: mult_left_mono)
  from round64_below [OF Fp big] obtain x where
    x: "round64 (F * p) = Some x" "0 \<le> x" "x \<le> 2 ^ 62" by blast
  from round64_below [OF Fq x(1)] obtain y where
    y: "round64 (F * q) = Some y" "0 \<le> y" "y \<le> x" by blast
  have tx: "0 \<le> go_trunc x" "go_trunc x \<le> 2 ^ 62"
    using x by (simp_all add: go_trunc_def floor_le_iff)
  have ty: "0 \<le> go_trunc y" "go_trunc y \<le> go_trunc x"
    using y go_trunc_mono_nonneg [of y x] by (simp_all add: go_trunc_def)
  from tx have dx: "to_int64 (Some x) = Some (go_trunc x)" by (simp add: to_int64_def)
  from tx ty have dy: "to_int64 (Some y) = Some (go_trunc y)" by (simp add: to_int64_def)
  from init have i0: "?i \<noteq> 0" by simp
  show ?thesis
    using i0 base pw pw' F(1) x(1) y(1) dx dy tx ty
    by (auto simp: calculateRetryInterval_def Let_def f64_mul_def f64_of_int_def)
qed

lemma calculateRetryInterval_capped:
  "calculateRetryInterval policy attempt = Some d \<Longrightarrow> 0 < MaxInterval policy \<Longrightarrow>
     d \<le> MaxInterval policy"
  by (auto simp: calculateRetryInterval_def Let_def split: if_splits option.splits)

lemma round64_binade:
  assumes "pow2 k \<le> x" "x < pow2 (k + 1)" "- 1022 \<le> k" "k \<le> 1022"
  shows "round64 x = Some (of_int (rne (x / pow2 (k - 52))) * pow2 (k - 52))"
proof -
  have x: "0 < x" using assms(1) pow2_pos [of k] by linarith
  have k: "\<lfloor>log 2 x\<rfloor> = k" using assms(1,2) by (rule floor_log2_eq)
  with assms(3) have rp: "round_pos x = of_int (rne (x / pow2 (k - 52))) * pow2 (k - 52)"
    by (simp add: round_pos_def Let_def)
  have "round_pos x \<le> pow2 (max \<lfloor>log 2 x\<rfloor> (- 1022) + 1)" using round_pos_upper [OF x] .
  also have "\<dots> \<le> pow2 1023" using assms(3,4) k by (intro pow2_mono) simp
  also have "\<dots> < pow2 1024" by (simp add: pow2_def)
  also have "\<dots> = 2 ^ 1024" by (simp add: pow2_nat)
  finally have "\<not> 2 ^ 1024 \<le> round_pos x" by simp
  with x rp show ?thesis by (simp add: round64_pos)
qed

lemma pow2_numeral:
  "pow2 (numeral n) = 2 ^ numeral n" "pow2 (- numeral n) = 1 / 2 ^ numeral n" "pow2 1 = 2"
  using powr_neg_numeral [of 2 n] by (simp_all add: pow2_def)

lemma round64_numeral:
  "(numeral n :: int) < 2 ^ 53 \<Longrightarrow> round64 (numeral n) = Some (numeral n)"
  using round64_int [of "numeral n"] by simp

lemma round64_1_7: "round64 (17 / 10) = Some (7656119366529843 / 4503599627370496)"
  by (subst round64_binade [of 0]) (simp_all add: pow2_numeral rne_def)

lemma round64_1_7_second:
  "round64 (1000000000 * (7656119366529843 / 4503599627370496)) = Some 1700000000"
  by (subst round64_binade [of 30]) (simp_all add: pow2_numeral rne_def)

lemma round64_1_7_square:
  "round64 (7656119366529843 / 4503599627370496 * (7656119366529843 / 4503599627370496))
   = Some (3253850730775183 / 1125899906842624)"
  by (subst round64_binade [of 1]) (simp_all add: pow2_numeral rne_def)

lemma round64_1_7_third:
  "round64 (1000000000 * (3253850730775183 / 1125899906842624))
   = Some (6060769279999999 / 2097152)"
  by (subst round64_binade [of 31]) (simp_all add: pow2_numeral rne_def)

lemma backoff_1_7:
  "calculateRetryInterval policy_backoff 2 = Some 1700000000"
  "calculateRetryInterval policy_backoff 3 = Some 2889999999"
proof -
  let ?b = "7656119366529843 / 4503599627370496 :: real"
  have init: "InitialInterval policy_backoff \<noteq> 0"
    and cap: "MaxInterval policy_backoff = 30000000000"
    and F: "f64_of_int (InitialInterval policy_backoff) = Some 1000000000"
    by (simp_all add: policy_backoff_def f64_of_int_def round64_numeral)
  have b: "f64_const (Multiplier policy_backoff) = Some ?b"
    by (simp only: policy_backoff_def RetryPolicy.simps f64_const_def option.case round64_1_7)
  have p2: "pow (Some ?b) (f64_of_int (2 - 1)) = Some ?b"
    using pow_fpow [of 1 "Some ?b"] by simp
  have "pow (Some ?b) (f64_of_int (3 - 1)) = f64_mul (Some ?b) (Some ?b)"
    using pow_fpow [of 2 "Some ?b"] by (simp add: eval_nat_numeral)
  also have "\<dots> = Some (3253850730775183 / 1125899906842624)"
    by (simp only: f64_mul_def option.case round64_1_7_square)
  finally have p3: "pow (Some ?b) (f64_of_int (3 - 1))
      = Some (3253850730775183 / 1125899906842624)" .
  have i2: "f64_mul (Some 1000000000) (Some ?b) = Some 1700000000"
    by (simp only: f64_mul_def option.case round64_1_7_second)
  have i3: "f64_mul (Some 1000000000) (Some (3253850730775183 / 1125899906842624))
      = Some (6060769279999999 / 2097152)"
    by (simp only: f64_mul_def option.case round64_1_7_third)
  have t2: "to_int64 (Some 1700000000) = Some 1700000000"
    by (simp add: to_int64_def go_trunc_def)
  have t3: "to_int64 (Some (6060769279999999 / 2097152)) = Some 2889999999"
    by (simp add: to_int64_def go_trunc_def)
  show "calculateRetryInterval policy_backoff 2 = Some 1700000000"
    unfolding calculateRetryInterval_def Let_def b F p2 i2 t2 using init cap by simp
  show "calculateRetryInterval policy_backoff 3 = Some 2889999999"
    unfolding calculateRetryInterval_def Let_def b F p3 i3 t3 using init cap by simp
qed

lemma uncapped_1_7: "go_trunc (uncapped policy_backoff 3) = 2890000000"
  by (simp add: go_trunc_def uncapped_def policy_backoff_def eval_nat_numeral)

lemma calculateRetryInterval_eq:
  assumes "0 < attempt" "attempt < 2 ^ 53"
  shows "calculateRetryInterval policy attempt =
     (if InitialInterval policy = 0 then Some 0
      else case to_int64 (f64_mul (f64_of_int (InitialInterval policy))
                            (fpow (f64_const (Multiplier policy)) (nat (attempt - 1)))) of
             None \<Rightarrow> None
           | Some d \<Rightarrow> Some (if 0 < MaxInterval policy then min d (MaxInterval policy) else d))"
proof -
  from assms have "pow (f64_const (Multiplier policy)) (f64_of_int (attempt - 1))
      = fpow (f64_const (Multiplier policy)) (nat (attempt - 1))"
    by (intro pow_fpow) simp_all
  then show ?thesis
    by (auto simp: calculateRetryInterval_def Let_def min_def split: option.splits)
qed

lemma round64_large: "round64 9007199254740993 = Some 9007199254740992"
  by (subst round64_binade [of 53]) (simp_all add: pow2_numeral rne_def)

lemma round64_large': "round64 (9007199254740992 * 1) = Some 9007199254740992"
  using round64_exact [of "2 ^ 52" 1] by (simp add: pow2_numeral)

lemma initial_rounded: "calculateRetryInterval policy_large 1 = Some 9007199254740992"
proof -
  have "f64_of_int (InitialInterval policy_large) = Some 9007199254740992"
    by (simp add: policy_large_def f64_of_int_def round64_large)
  moreover have "pow (f64_const (Multiplier policy_large)) (f64_of_int (1 - 1)) = Some 1"
    by (simp add: pow_def f64_of_int_def)
  moreover have "f64_mul (Some 9007199254740992) (Some 1) = Some 9007199254740992"
    by (simp only: f64_mul_def option.case round64_large')
  moreover have "to_int64 (Some 9007199254740992) = Some 9007199254740992"
    by (simp add: to_int64_def go_trunc_def)
  moreover have "InitialInterval policy_large \<noteq> 0" "MaxInterval policy_large = 0"
    by (simp_all add: policy_large_def)
  ultimately show ?thesis
    by (simp add: calculateRetryInterval_def Let_def)
qed


lemma round64_half: "round64 (1 / 2) = Some (1 / 2)"
  using round64_exact [of 1 "- 1"] by (simp add: pow2_numeral pow2_def)

text \<open>
  C7 as stated: the delay before attempt \<open>i > 0\<close> is
  \<open>min(initialInterval * multiplier^(i-1), maxInterval)\<close>. With a policy that sets no
  maximum interval (\<open>MaxInterval = 0\<close>), 1 ms initial interval and multiplier 2, the
  delay before attempt 1 is 1 ms, not the minimum with 0.
\<close>

theorem calculateRetryInterval_min_counterexample:
  "calculateRetryInterval policy_no_cap 1
   \<noteq> Some (min (go_trunc (uncapped policy_no_cap 1)) (MaxInterval policy_no_cap))"
  by (simp add: calculateRetryInterval_def policy_no_cap_def uncapped_def pow_def
      f64_of_int_def f64_mul_def f64_const_def round64_numeral to_int64_def go_trunc_def)

text \<open>
  C7 (amended): the delay is zero when the initial interval is zero. Otherwise, for
  attempt index \<open>i > 0\<close>, it is the \<^verbatim>\<open>float64\<close> product of the initial interval and
  \<open>multiplier^(i-1)\<close>, every product rounded to the nearest \<^verbatim>\<open>float64\<close>, truncated to a
  whole number of nanoseconds (as far as that fits a 64-bit duration), and it is capped
  at \<open>maxInterval\<close> only when \<open>maxInterval > 0\<close>. Where the multiplier is a whole number
  and the product stays below \<open>2^53\<close> nothing is rounded and the delay is
  \<open>initialInterval * multiplier^(i-1)\<close>, capped in the same way. With an initial interval
  between 1 and \<open>2^62\<close> and a multiplier between 0 and 1 the delay exists and never grows
  from one attempt to the next. In general the delay is not the exact product: one
  second with multiplier 1.7 gives 1700000000 ns before attempt 2 and 2889999999 ns
  before attempt 3, where the exact product truncates to 2890000000, and an initial
  interval of \<open>2^53 + 1\<close> ns with multiplier 1 gives \<open>2^53\<close> ns.
\<close>

theorem calculateRetryInterval_backoff:
  "calculateRetryInterval (policy\<lparr>InitialInterval := 0\<rparr>) attempt = Some 0
   \<and> (0 < attempt \<and> attempt < 2 ^ 53 \<longrightarrow>
        calculateRetryInterval policy attempt =
          (if InitialInterval policy = 0 then Some 0
           else case to_int64 (f64_mul (f64_of_int (InitialInterval policy))
                                 (fpow (f64_const (Multiplier policy)) (nat (attempt - 1)))) of
                  None \<Rightarrow> None
                | Some d \<Rightarrow>
                    Some (if 0 < MaxInterval policy then min d (MaxInterval policy) else d)))
   \<and> (0 < attempt \<and> attempt < 2 ^ 53
        \<and> InitialInterval policy \<noteq> 0 \<and> \<bar>InitialInterval policy\<bar> < 2 ^ 53
        \<and> Multiplier policy = Some (of_int m) \<and> \<bar>m\<bar> < 2 ^ 53
        \<and> \<bar>InitialInterval policy * m ^ nat (attempt - 1)\<bar> < 2 ^ 53 \<longrightarrow>
        calculateRetryInterval policy attempt =
          Some (if 0 < MaxInterval policy
                then min (InitialInterval policy * m ^ nat (attempt - 1)) (MaxInterval policy)
                else InitialInterval policy * m ^ nat (attempt - 1)))
   \<and> (0 < attempt \<and> attempt < 2 ^ 53
        \<and> 0 < InitialInterval policy \<and> InitialInterval policy \<le> 2 ^ 62
        \<and> Multiplier policy = Some x \<and> 0 \<le> x \<and> x \<le> 1 \<longrightarrow>
        (\<exists>d d'. calculateRetryInterval policy attempt = Some d
                \<and> calculateRetryInterval policy (attempt + 1) = Some d'
                \<and> 0 \<le> d' \<and> d' \<le> d))
   \<and> calculateRetryInterval policy_backoff 2 = Some 1700000000
   \<and> calculateRetryInterval policy_backoff 3 = Some 2889999999
   \<and> go_trunc (uncapped policy_backoff 3) = 2890000000
   \<and> calculateRetryInterval policy_large 1 = Some 9007199254740992"
proof (intro conjI impI)
  show "calculateRetryInterval (policy\<lparr>InitialInterval := 0\<rparr>) attempt = Some 0"
    by (simp add: calculateRetryInterval_def)
next
  assume "0 < attempt \<and> attempt < 2 ^ 53"
  then show "calculateRetryInterval policy attempt =
      (if InitialInterval policy = 0 then Some 0
       else case to_int64 (f64_mul (f64_of_int (InitialInterval policy))
                             (fpow (f64_const (Multiplier policy)) (nat (attempt - 1)))) of
              None \<Rightarrow> None
            | Some d \<Rightarrow>
                Some (if 0 < MaxInterval policy then min d (MaxInterval policy) else d))"
    using calculateRetryInterval_eq [of attempt policy] by simp
next
  assume "0 < attempt \<and> attempt < 2 ^ 53
      \<and> InitialInterval policy \<noteq> 0 \<and> \<bar>InitialInterval policy\<bar> < 2 ^ 53
      \<and> Multiplier policy = Some (of_int m) \<and> \<bar>m\<bar> < 2 ^ 53
      \<and> \<bar>InitialInterval policy * m ^ nat (attempt - 1)\<bar> < 2 ^ 53"
  then show "calculateRetryInterval policy attempt =
      Some (if 0 < MaxInterval policy
            then min (InitialInterval policy * m ^ nat (attempt - 1)) (MaxInterval policy)
            else InitialInterval policy * m ^ nat (attempt - 1))"
    using calculateRetryInterval_exact [of attempt policy m] by (simp add: min_def)
next
  assume "0 < attempt \<and> attempt < 2 ^ 53
      \<and> 0 < InitialInterval policy \<and> InitialInterval policy \<le> 2 ^ 62
      \<and> Multiplier policy = Some x \<and> 0 \<le> x \<and> x \<le> 1"
  then show "\<exists>d d'. calculateRetryInterval policy attempt = Some d
      \<and> calculateRetryInterval policy (attempt + 1) = Some d' \<and> 0 \<le> d' \<and> d' \<le> d"
    using calculateRetryInterval_shrinking [of attempt policy x] by simp
qed (rule backoff_1_7 uncapped_1_7 initial_rounded)+

theorem calculateRetryInterval_backoff_witness:
  "calculateRetryInterval policy_no_cap 3 = Some 4000000
   \<and> calculateRetryInterval policy_halving 2 = Some 500
   \<and> (\<exists>d d'. calculateRetryInterval policy_halving 2 = Some d
              \<and> calculateRetryInterval policy_halving (2 + 1) = Some d'
              \<and> 0 \<le> d' \<and> d' \<le> d)"
proof -
  note doubling = calculateRetryInterval_backoff [of policy_no_cap 3 2 0]
  note halving = calculateRetryInterval_backoff [of policy_halving 2 0 "1 / 2"]
  have "calculateRetryInterval policy_no_cap 3 =
      Some (if 0 < MaxInterval policy_no_cap
            then min (InitialInterval policy_no_cap * 2 ^ nat (3 - 1))
                   (MaxInterval policy_no_cap)
            else InitialInterval policy_no_cap * 2 ^ nat (3 - 1))"
    by (rule doubling [THEN conjunct2, THEN conjunct2, THEN conjunct1, rule_format])
       (simp add: policy_no_cap_def)
  then have a: "calculateRetryInterval policy_no_cap 3 = Some 4000000"
    by (simp add: policy_no_cap_def)
  have "calculateRetryInterval policy_halving 2 =
      (if InitialInterval policy_halving = 0 then Some 0
       else case to_int64 (f64_mul (f64_of_int (InitialInterval policy_halving))
                             (fpow (f64_const (Multiplier policy_halving)) (nat (2 - 1)))) of
              None \<Rightarrow> None
            | Some d \<Rightarrow>
                Some (if 0 < MaxInterval policy_halving
                      then min d (MaxInterval policy_halving) else d))"
    by (rule halving [THEN conjunct2, THEN conjunct1, rule_format]) simp
  then have b: "calculateRetryInterval policy_halving 2 = Some 500"
    by (simp add: policy_halving_def f64_const_def f64_of_int_def f64_mul_def round64_half
        round64_numeral to_int64_def go_trunc_def)
  have c: "\<exists>d d'. calculateRetryInterval policy_halving 2 = Some d
      \<and> calculateRetryInterval policy_halving (2 + 1) = Some d' \<and> 0 \<le> d' \<and> d' \<le> d"
    by (rule halving [THEN conjunct2, THEN conjunct2, THEN conjunct2, THEN conjunct1,
          rule_format])
       (simp add: policy_halving_def)
  from a b c show ?thesis by (intro conjI)
qed

section \<open>Reads of the in-memory store\<close>

text \<open>
  C10: \<open>GetWorkflowSteps\<close> returns the steps of the workflow in ascending execution
  order. The code appends the steps in the order in which the map iteration visits them
  and does not sort: on the store of the repository's own test, when the iteration
  visits \<open>step2\<close> before \<open>step1\<close>, the execution orders come back as 2, 1.
\<close>

theorem GetWorkflowSteps_unordered:
  "iteration_order [''step2'', ''step3'', ''step1''] (sm_steps (w_sm steps_world))
   \<and> map si_ID (snd (GetWorkflowSteps [''step2'', ''step3'', ''step1''] ''test-workflow''
                       steps_world)) = [''step2'', ''step1'']
   \<and> map si_ExecutionOrder
         (snd (GetWorkflowSteps [''step2'', ''step3'', ''step1''] ''test-workflow'' steps_world))
       = [2, 1]"
  by (auto simp: iteration_order_def GetWorkflowSteps_def steps_world_def SaveStep_def
      test_step_def deepCopyStep_def init_world_def NewInMemoryStateManager_def)

text \<open>
  C1: after the engine has started a workflow, \<open>GetWorkflow\<close> returns the instance with
  its step instances. In scenario S1 the run succeeds and the instance it returns has its
  one step instance, but the instance read back from the store has none: the store keeps
  the copy made when the instance was saved, before its steps were created, and
  \<open>GetWorkflow\<close> does not look at the saved steps.
\<close>

theorem GetWorkflow_after_start_has_no_steps:
  "case StartWorkflow tb [''W'' \<mapsto> s1_workflow] Map.empty ''W'' [''in'' \<mapsto> VInt 1] Map.empty
          (init_world uuid_seq ()) of
     Inr ((Some res, None), w) \<Rightarrow>
       wr_Success res
       \<and> wr_Output res ''r'' = Some (VStr ''ok'')
       \<and> map si_StepID (wi_Steps (wr_WorkflowInst res)) = [''S'']
       \<and> map (\<lambda>s. map_option si_Status (sm_steps (w_sm w) (si_ID s)))
             (wi_Steps (wr_WorkflowInst res)) = [Some StepStatusCompleted]
       \<and> (case GetWorkflow (wi_ID (wr_WorkflowInst res)) w of
            Inr got \<Rightarrow> wi_Status got = WorkflowStatusCompleted \<and> wi_Steps got = []
          | Inl e \<Rightarrow> False)
   | _ \<Rightarrow> False"
  by (simp del: eval_recs add: eval_world eval_pure s1_workflow_def s1_exec_def
      cong: eval_congs)

section \<open>Retry loop\<close>

text \<open>
  C3: a failure whose message matches no entry of a non-empty \<open>RetryableErrors\<close> list is
  not retried. The attempt loop never reads \<open>RetryableErrors\<close>: with three attempts
  allowed and \<open>timeout\<close> as the only retryable pattern, a step that fails with \<open>boom\<close>
  is executed three times, and its retry count is 2.
\<close>

theorem non_retryable_failure_is_retried:
  "RetryableErrors timeout_only_policy = [''timeout'']
   \<and> (case StartWorkflow tb [''W'' \<mapsto> boom_workflow] Map.empty ''W'' Map.empty Map.empty
             (init_world uuid_seq 0) of
        Inr ((Some res, Some e), w) \<Rightarrow>
          w_user w = 3
          \<and> map si_RetryCount (wi_Steps (wr_WorkflowInst res)) = [2]
          \<and> map si_Error (wi_Steps (wr_WorkflowInst res)) = [Some ''boom'']
      | _ \<Rightarrow> False)"
  by (simp del: eval_recs add: eval_world eval_pure boom_workflow_def boom_counting_def
      timeout_only_policy_def cong: eval_congs)

section \<open>Copies made by the in-memory store\<close>

lemmas heap_eval =
  SaveWorkflow_h_def GetWorkflow_h_def deepCopyWorkflow_h_def deepCopySteps_h.simps
  copy_map_def make_map_def entries_def map_store_def set_input_def set_nested_input_def
  nested_input_def nested_store_def nested_instance_def nested_heap_def Let_def

text \<open>
  C9: changing an instance returned by a read, including values nested in its input,
  never changes what later reads return. The copy made by the store is one level deep:
  a write to a top-level key of the returned input is not seen by the next read, but a
  write into the mapping nested under \<open>cfg\<close> is. The stored input is \<open>{cfg: {a: 1}}\<close>;
  after \<open>got.Input[cfg][a] = 2\<close> on the instance read first, the second read returns
  \<open>a = 2\<close> under \<open>cfg\<close>.
\<close>

theorem nested_mutation_reaches_store:
  "case GetWorkflow_h ''test-workflow'' nested_store of
     (Inr got, m1) \<Rightarrow>
       nested_input (hs_heap m1) got ''cfg'' ''a'' = Some (HInt 1)
       \<and> (case GetWorkflow_h ''test-workflow''
                  (set_input got ''key'' (HStr ''modified'') m1) of
            (Inr again, m2) \<Rightarrow>
              entries (hs_heap m2) (wi_Input again) ''key'' = Some (HStr ''value'')
          | _ \<Rightarrow> False)
       \<and> (case GetWorkflow_h ''test-workflow''
                  (set_nested_input got ''cfg'' ''a'' (HInt 2) m1) of
            (Inr again, m2) \<Rightarrow>
              wi_Input again \<noteq> wi_Input got
              \<and> nested_input (hs_heap m2) again ''cfg'' ''a'' = Some (HInt 2)
          | _ \<Rightarrow> False)
   | _ \<Rightarrow> False"
  by (simp add: heap_eval)

section \<open>Priority order within a wave\<close>








subsection \<open>Order of execution\<close>

















lemma s3w_fields [simp]:
  "sd_ID (s3w_step name deps priority required) = name"
  "sd_Priority (s3w_step name deps priority required) = priority"
  "sd_Async (s3w_step name deps priority required) = False"
  "sd_Required (s3w_step name deps priority required) = required"
  "sd_Dependencies (s3w_step name deps priority required) = deps"
  "sd_RetryPolicy (s3w_step name deps priority required) = None"
  "sd_Executor (s3w_step name deps priority required) = Some (recorder name (s3w_body name))"
  by (simp_all add: s3w_step_def NewStep_def)






end
